theory Spec2Isabelle
  imports Main "HOL-Library.Word"
begin

section \<open>Values supplied by the tracing SDK\<close>

text \<open>
  \<open>label.Value\<close> of the SDK is a tagged union; \<open>val.Type()\<close> is the constructor and
  \<open>val.AsString()\<close>, \<open>val.AsInt32()\<close>, ... read its payload. Signed and unsigned integers
  are words of their width (\<open>sint\<close> reads the signed ones). A float payload is kept as its
  bit pattern: the converter never computes with it. The payload of an array is an
  \<open>interface{}\<close> that the converter only ever renders with \<open>fmt.Sprintf("%v", _)\<close>; the
  model carries that rendering.
\<close>

datatype label_Value =
    INVALID
  | BOOL bool
  | INT32 "32 word"
  | INT64 "64 word"
  | UINT32 "32 word"
  | UINT64 "64 word"
  | FLOAT32 "32 word"
  | FLOAT64 "64 word"
  | STRING string
  | ARRAY string

record KeyValue =
  Key :: string
  Value :: label_Value

text \<open>
  A \<open>float64\<close> of the output record. The converter only converts to \<open>float64\<close> and
  stores the result, so a value is kept as the conversion that produced it: a
  \<open>float64\<close> given by its bits, \<open>float64(x)\<close> of a \<open>float32\<close> given by its bits, or
  \<open>float64(n)\<close> of an integer (also the constants \<open>0\<close> and \<open>1\<close>).
\<close>

datatype float64 =
    Float64 "64 word"
  | Float64_of_float32 "32 word"
  | Float64_of_int int

text \<open>
  \<open>trace.SpanKind\<close> with its named values. The converter tells the client kind and the
  server kind apart; every other kind takes the default branch of its switch.
\<close>

datatype SpanKind =
    SpanKindUnspecified
  | SpanKindInternal
  | SpanKindServer
  | SpanKindClient
  | SpanKindProducer
  | SpanKindConsumer

text \<open>
  \<open>export.SpanData\<close>, the fields the converter reads. The identifiers are byte arrays
  (\<open>[16]byte\<close>, \<open>[8]byte\<close>) given as lists of bytes; a \<open>time.Time\<close> is given by its
  \<open>UnixNano()\<close>, an \<open>int64\<close>; \<open>codes.Code\<close> is a \<open>uint32\<close>.
\<close>

record SpanData =
  sd_TraceID :: "8 word list"
  sd_SpanID :: "8 word list"
  sd_ParentSpanID :: "8 word list"
  sd_SpanKind :: SpanKind
  sd_Name :: string
  sd_StartTime :: "64 word"
  sd_EndTime :: "64 word"
  sd_Attributes :: "KeyValue list"
  sd_StatusCode :: "32 word"
  sd_StatusMessage :: string

section \<open>The output record and the exporter's options\<close>

text \<open>
  Modelled from the spec: the declaration of the output record \<open>ddSpan\<close> is not in
  \<open>span.go\<close>. The fields are those \<open>convertSpan\<close> and the tests write: three 64-bit
  identifiers, four strings, start and duration in nanoseconds (\<open>int64\<close>), the error
  flag (\<open>int32\<close>, only ever assigned 0 or 1, hence an \<open>int\<close> here), and the two
  mappings \<open>Metrics\<close> (\<open>map[string]float64\<close>) and \<open>Meta\<close> (\<open>map[string]string\<close>).
\<close>

record ddSpan =
  TraceID :: "64 word"
  SpanID :: "64 word"
  ParentID :: "64 word"
  Name :: string
  Resource :: string
  Service :: string
  Type :: string
  Start :: "64 word"
  Duration :: "64 word"
  Error :: int
  Metrics :: "string \<rightharpoonup> float64"
  Meta :: "string \<rightharpoonup> string"

text \<open>
  Modelled from the spec: the declaration of the exporter's \<open>Options\<close> (\<open>e.opts\<close>) is
  not in \<open>span.go\<close>. The converter reads the default service name and the ordered
  global tags.
\<close>

record Options =
  opts_Service :: string
  opts_GlobalTags :: "KeyValue list"

section \<open>Constants\<close>

text \<open>The keys of package \<open>ext\<close> of the backend's tracing library.\<close>

definition ext_Error :: string where "ext_Error = ''error''"
definition ext_ErrorMsg :: string where "ext_ErrorMsg = ''error.msg''"
definition ext_ErrorType :: string where "ext_ErrorType = ''error.type''"
definition ext_ServiceName :: string where "ext_ServiceName = ''service.name''"
definition ext_ResourceName :: string where "ext_ResourceName = ''resource.name''"
definition ext_SpanType :: string where "ext_SpanType = ''span.type''"
definition ext_SamplingPriority :: string where "ext_SamplingPriority = ''sampling.priority''"
definition ext_AnalyticsEvent :: string where "ext_AnalyticsEvent = ''analytics.event''"
definition ext_EventSampleRate :: string where "ext_EventSampleRate = ''_dd1.sr.eausr''"

text \<open>The keys declared in \<open>span.go\<close>.\<close>

definition keySamplingPriority :: string where
  "keySamplingPriority = ''_sampling_priority_v1''"
definition keyStatusDescription :: string where
  "keyStatusDescription = ''opentelemetry.status_description''"
definition keyStatusCode :: string where
  "keyStatusCode = ''opentelemetry.status_code''"
definition keyStatus :: string where
  "keyStatus = ''opentelemetry.status''"
definition keySpanName :: string where
  "keySpanName = ''span.name''"
definition keySamplingPriorityRate :: string where
  "keySamplingPriorityRate = ''_sampling_priority_rate_v1''"

text \<open>The status codes of package \<open>codes\<close> and the HTTP statuses of \<open>net/http\<close>.\<close>

definition codes_OK :: "32 word" where "codes_OK = 0"
definition codes_Canceled :: "32 word" where "codes_Canceled = 1"
definition codes_Unknown :: "32 word" where "codes_Unknown = 2"
definition codes_InvalidArgument :: "32 word" where "codes_InvalidArgument = 3"
definition codes_DeadlineExceeded :: "32 word" where "codes_DeadlineExceeded = 4"
definition codes_NotFound :: "32 word" where "codes_NotFound = 5"
definition codes_AlreadyExists :: "32 word" where "codes_AlreadyExists = 6"
definition codes_PermissionDenied :: "32 word" where "codes_PermissionDenied = 7"
definition codes_ResourceExhausted :: "32 word" where "codes_ResourceExhausted = 8"
definition codes_FailedPrecondition :: "32 word" where "codes_FailedPrecondition = 9"
definition codes_Aborted :: "32 word" where "codes_Aborted = 10"
definition codes_OutOfRange :: "32 word" where "codes_OutOfRange = 11"
definition codes_Unimplemented :: "32 word" where "codes_Unimplemented = 12"
definition codes_Internal :: "32 word" where "codes_Internal = 13"
definition codes_Unavailable :: "32 word" where "codes_Unavailable = 14"
definition codes_DataLoss :: "32 word" where "codes_DataLoss = 15"
definition codes_Unauthenticated :: "32 word" where "codes_Unauthenticated = 16"

definition http_StatusOK :: int where "http_StatusOK = 200"
definition http_StatusBadRequest :: int where "http_StatusBadRequest = 400"
definition http_StatusUnauthorized :: int where "http_StatusUnauthorized = 401"
definition http_StatusForbidden :: int where "http_StatusForbidden = 403"
definition http_StatusNotFound :: int where "http_StatusNotFound = 404"
definition http_StatusConflict :: int where "http_StatusConflict = 409"
definition http_StatusTooManyRequests :: int where "http_StatusTooManyRequests = 429"
definition http_StatusInternalServerError :: int where "http_StatusInternalServerError = 500"
definition http_StatusNotImplemented :: int where "http_StatusNotImplemented = 501"
definition http_StatusServiceUnavailable :: int where "http_StatusServiceUnavailable = 503"
definition http_StatusGatewayTimeout :: int where "http_StatusGatewayTimeout = 504"

section \<open>Library functions the converter calls\<close>

text \<open>
  \<open>strconv.FormatInt(i, 10)\<close> and \<open>strconv.Itoa(i)\<close>: the decimal rendering of a signed
  integer, a minus sign before the digits of a negative one.
\<close>

fun decimal :: "nat \<Rightarrow> string" where
  "decimal n =
     (if n < 10 then [''0123456789'' ! n]
      else decimal (n div 10) @ [''0123456789'' ! (n mod 10)])"

declare decimal.simps [simp del]

definition strconv_FormatInt :: "64 word \<Rightarrow> string" where
  "strconv_FormatInt i =
     (if sint i < 0 then CHR ''-'' # decimal (nat (- sint i)) else decimal (nat (sint i)))"

text \<open>\<open>int\<close> is taken to be 64 bits wide, as on the platforms the exporter is built for.\<close>

definition strconv_Itoa :: "64 word \<Rightarrow> string" where
  "strconv_Itoa i = strconv_FormatInt i"

text \<open>
  \<open>binary.BigEndian.Uint64(b)\<close> reads the first eight bytes of \<open>b\<close>, most significant
  first. The converter applies it to slices of fixed-size arrays that hold eight bytes.
\<close>

definition BigEndian_Uint64 :: "8 word list \<Rightarrow> 64 word" where
  "BigEndian_Uint64 b = foldl (\<lambda>acc x. push_bit 8 acc + ucast x) 0 (take 8 b)"

text \<open>\<open>SpanID.IsValid()\<close>: the identifier is not all zeroes.\<close>

definition IsValid :: "8 word list \<Rightarrow> bool" where
  "IsValid b = (filter (\<lambda>x. x \<noteq> 0) b \<noteq> [])"

section \<open>The status table\<close>

record codeDetails =
  message :: string
  status :: int

definition statusCodes :: "32 word \<rightharpoonup> codeDetails" where
  "statusCodes = map_of
     [(codes_OK, \<lparr>message = ''OK'', status = http_StatusOK\<rparr>),
      (codes_Canceled, \<lparr>message = ''CANCELLED'', status = 499\<rparr>),
      (codes_Unknown, \<lparr>message = ''UNKNOWN'', status = http_StatusInternalServerError\<rparr>),
      (codes_InvalidArgument, \<lparr>message = ''INVALID_ARGUMENT'', status = http_StatusBadRequest\<rparr>),
      (codes_DeadlineExceeded, \<lparr>message = ''DEADLINE_EXCEEDED'', status = http_StatusGatewayTimeout\<rparr>),
      (codes_NotFound, \<lparr>message = ''NOT_FOUND'', status = http_StatusNotFound\<rparr>),
      (codes_AlreadyExists, \<lparr>message = ''ALREADY_EXISTS'', status = http_StatusConflict\<rparr>),
      (codes_PermissionDenied, \<lparr>message = ''PERMISSION_DENIED'', status = http_StatusForbidden\<rparr>),
      (codes_ResourceExhausted, \<lparr>message = ''RESOURCE_EXHAUSTED'', status = http_StatusTooManyRequests\<rparr>),
      (codes_FailedPrecondition, \<lparr>message = ''FAILED_PRECONDITION'', status = http_StatusBadRequest\<rparr>),
      (codes_Aborted, \<lparr>message = ''ABORTED'', status = http_StatusConflict\<rparr>),
      (codes_OutOfRange, \<lparr>message = ''OUT_OF_RANGE'', status = http_StatusBadRequest\<rparr>),
      (codes_Unimplemented, \<lparr>message = ''UNIMPLEMENTED'', status = http_StatusNotImplemented\<rparr>),
      (codes_Internal, \<lparr>message = ''INTERNAL'', status = http_StatusInternalServerError\<rparr>),
      (codes_Unavailable, \<lparr>message = ''UNAVAILABLE'', status = http_StatusServiceUnavailable\<rparr>),
      (codes_DataLoss, \<lparr>message = ''DATA_LOSS'', status = http_StatusNotImplemented\<rparr>),
      (codes_Unauthenticated, \<lparr>message = ''UNAUTHENTICATED'', status = http_StatusUnauthorized\<rparr>)]"

section \<open>The dispatch of one attribute\<close>

definition setMetric :: "ddSpan \<Rightarrow> string \<Rightarrow> float64 \<Rightarrow> ddSpan" where
  "setMetric s key v =
     (if key = ext_SamplingPriority then s\<lparr>Metrics := (Metrics s)(keySamplingPriority \<mapsto> v)\<rparr>
      else s\<lparr>Metrics := (Metrics s)(key \<mapsto> v)\<rparr>)"

definition setStringTag :: "ddSpan \<Rightarrow> string \<Rightarrow> string \<Rightarrow> ddSpan" where
  "setStringTag s key v =
     (if key = ext_ServiceName then s\<lparr>Service := v\<rparr>
      else if key = ext_ResourceName then s\<lparr>Resource := v\<rparr>
      else if key = ext_SpanType then s\<lparr>Type := v\<rparr>
      else if key = ext_AnalyticsEvent then
        (if v \<noteq> ''false'' then setMetric s ext_EventSampleRate (Float64_of_int 1)
         else setMetric s ext_EventSampleRate (Float64_of_int 0))
      else if key = keySpanName then s\<lparr>Name := v\<rparr>
      else s\<lparr>Meta := (Meta s)(key \<mapsto> v)\<rparr>)"

fun setError :: "ddSpan \<Rightarrow> label_Value \<Rightarrow> ddSpan" where
  "setError s (STRING x) = s\<lparr>Error := 1, Meta := (Meta s)(ext_ErrorMsg \<mapsto> x)\<rparr>"
| "setError s (BOOL b) = (if b then s\<lparr>Error := 1\<rparr> else s\<lparr>Error := 0\<rparr>)"
| "setError s (INT32 n) = (if sint n > 0 then s\<lparr>Error := 1\<rparr> else s\<lparr>Error := 0\<rparr>)"
| "setError s (INT64 n) = (if sint n > 0 then s\<lparr>Error := 1\<rparr> else s\<lparr>Error := 0\<rparr>)"
| "setError s (UINT32 n) = (if uint n > 0 then s\<lparr>Error := 1\<rparr> else s\<lparr>Error := 0\<rparr>)"
| "setError s (UINT64 n) = (if uint n > 0 then s\<lparr>Error := 1\<rparr> else s\<lparr>Error := 0\<rparr>)"
| "setError s INVALID = s\<lparr>Error := 0\<rparr>"
| "setError s _ = s\<lparr>Error := 1\<rparr>"

text \<open>
  \<open>setTag\<close>: the error key first, then the switch on the value's type. The switch has
  no default, so an \<open>INVALID\<close> value leaves the record as it is.
\<close>

definition setTag :: "ddSpan \<Rightarrow> string \<Rightarrow> label_Value \<Rightarrow> ddSpan" where
  "setTag s key val =
     (if key = ext_Error then setError s val
      else case val of
        STRING x \<Rightarrow> setStringTag s key x
      | BOOL b \<Rightarrow> (if b then setStringTag s key ''true'' else setStringTag s key ''false'')
      | FLOAT32 x \<Rightarrow> setMetric s key (Float64_of_float32 x)
      | FLOAT64 x \<Rightarrow> setMetric s key (Float64 x)
      | INT32 n \<Rightarrow> setMetric s key (Float64_of_int (sint n))
      | INT64 n \<Rightarrow> setMetric s key (Float64_of_int (sint n))
      | UINT32 n \<Rightarrow> setMetric s key (Float64_of_int (uint n))
      | UINT64 n \<Rightarrow> setMetric s key (Float64_of_int (uint n))
      | ARRAY x \<Rightarrow> setStringTag s key x
      | INVALID \<Rightarrow> s)"

text \<open>The loop \<open>for _, attr := range attrs { setTag(span, string(attr.Key), attr.Value) }\<close>.\<close>

definition setTags :: "ddSpan \<Rightarrow> KeyValue list \<Rightarrow> ddSpan" where
  "setTags span attrs = foldl (\<lambda>span attr. setTag span (Key attr) (Value attr)) span attrs"

section \<open>The conversion of a span\<close>

text \<open>
  \<open>convertSpan\<close> in the order of its text. \<open>convertSpan_new\<close> is the record built first
  with the parent identifier set when valid; \<open>convertSpan_code\<close> the lookup in the status
  table with its fallback; \<open>convertSpan_kind\<close> the switch on the span kind (the server
  case falls through to the default); \<open>convertSpan_status\<close> the error tags and the status
  tags; \<open>convertSpan\<close> then runs the two loops, the global tags first. Every HTTP
  status of the table and of the fallback is positive, where Go's \<open>code.status/100\<close> is
  \<open>div\<close>. The fields that the struct literal leaves out (\<open>ParentID\<close>, \<open>Type\<close>,
  \<open>Error\<close>) start as Go's zero values.
\<close>

definition convertSpan_new :: "Options \<Rightarrow> SpanData \<Rightarrow> ddSpan" where
  "convertSpan_new e s =
     (let startNano = sd_StartTime s;
          span = \<lparr>TraceID = BigEndian_Uint64 (drop 8 (sd_TraceID s)),
                  SpanID = BigEndian_Uint64 (sd_SpanID s),
                  ParentID = 0,
                  Name = ''opentelemetry'',
                  Resource = sd_Name s,
                  Service = opts_Service e,
                  Type = '''',
                  Start = startNano,
                  Duration = sd_EndTime s - startNano,
                  Error = 0,
                  Metrics = Map.empty,
                  Meta = Map.empty\<rparr>
      in if IsValid (sd_ParentSpanID s)
         then span\<lparr>ParentID := BigEndian_Uint64 (sd_ParentSpanID s)\<rparr>
         else span)"

definition convertSpan_code :: "32 word \<Rightarrow> codeDetails" where
  "convertSpan_code c =
     (case statusCodes c of
        Some code \<Rightarrow> code
      | None \<Rightarrow> \<lparr>message = ''ERR_CODE_'' @ strconv_FormatInt (ucast c),
                 status = http_StatusInternalServerError\<rparr>)"

definition convertSpan_kind :: "SpanKind \<Rightarrow> codeDetails \<Rightarrow> ddSpan \<Rightarrow> ddSpan" where
  "convertSpan_kind kind code span =
     (case kind of
        SpanKindClient \<Rightarrow>
          (let span = span\<lparr>Type := ''client''\<rparr>
           in if status code div 100 = 4 then span\<lparr>Error := 1\<rparr> else span)
      | SpanKindServer \<Rightarrow>
          (let span = span\<lparr>Type := ''server''\<rparr>
           in if status code div 100 = 5 then span\<lparr>Error := 1\<rparr> else span)
      | _ \<Rightarrow> if status code div 100 = 5 then span\<lparr>Error := 1\<rparr> else span)"

definition convertSpan_status :: "SpanData \<Rightarrow> codeDetails \<Rightarrow> ddSpan \<Rightarrow> ddSpan" where
  "convertSpan_status s code span =
     (let span =
            (if Error span = 1 then
               (let span = span\<lparr>Meta := (Meta span)(ext_ErrorType \<mapsto> message code)\<rparr>
                in if sd_StatusMessage s \<noteq> ''''
                   then span\<lparr>Meta := (Meta span)(ext_ErrorMsg \<mapsto> sd_StatusMessage s)\<rparr>
                   else span)
             else span);
          span = span\<lparr>Meta := (Meta span)(keyStatusCode \<mapsto> strconv_Itoa (ucast (sd_StatusCode s)))\<rparr>;
          span = span\<lparr>Meta := (Meta span)(keyStatus \<mapsto> message code)\<rparr>
      in if sd_StatusMessage s \<noteq> ''''
         then span\<lparr>Meta := (Meta span)(keyStatusDescription \<mapsto> sd_StatusMessage s)\<rparr>
         else span)"

definition convertSpan :: "Options \<Rightarrow> SpanData \<Rightarrow> ddSpan" where
  "convertSpan e s =
     (let span = convertSpan_new e s;
          code = convertSpan_code (sd_StatusCode s);
          span = convertSpan_kind (sd_SpanKind s) code span;
          span = convertSpan_status s code span;
          span = setTags span (opts_GlobalTags e);
          span = setTags span (sd_Attributes s)
      in span)"

section \<open>Destination slots\<close>

text \<open>
  The parts of the record that a dispatch can write: the error flag, the four
  structural fields, one entry of \<open>Metrics\<close> and one entry of \<open>Meta\<close>.
  \<open>slots key val\<close> lists the parts that \<open>setTag\<close> writes for an attribute, read off
  its branches; \<open>content\<close> reads a part of a record. That \<open>slots\<close> is exact is proved
  below: \<open>setTag\<close> leaves every other part as it was, and what it writes into a listed
  part does not depend on the record.
\<close>

datatype slot =
    ErrorFlag
  | ServiceField
  | ResourceField
  | TypeField
  | NameField
  | Metric string
  | Tag string

datatype slot_value = Flag int | Text string | Number float64 | Absent

fun content :: "slot \<Rightarrow> ddSpan \<Rightarrow> slot_value" where
  "content ErrorFlag r = Flag (Error r)"
| "content ServiceField r = Text (Service r)"
| "content ResourceField r = Text (Resource r)"
| "content TypeField r = Text (Type r)"
| "content NameField r = Text (Name r)"
| "content (Metric k) r = (case Metrics r k of None \<Rightarrow> Absent | Some v \<Rightarrow> Number v)"
| "content (Tag k) r = (case Meta r k of None \<Rightarrow> Absent | Some v \<Rightarrow> Text v)"

definition metricSlot :: "string \<Rightarrow> slot" where
  "metricSlot key = (if key = ext_SamplingPriority then Metric keySamplingPriority else Metric key)"

definition stringSlot :: "string \<Rightarrow> slot" where
  "stringSlot key =
     (if key = ext_ServiceName then ServiceField
      else if key = ext_ResourceName then ResourceField
      else if key = ext_SpanType then TypeField
      else if key = ext_AnalyticsEvent then metricSlot ext_EventSampleRate
      else if key = keySpanName then NameField
      else Tag key)"

definition slots :: "string \<Rightarrow> label_Value \<Rightarrow> slot list" where
  "slots key val =
     (if key = ext_Error then
        (case val of STRING x \<Rightarrow> [ErrorFlag, Tag ext_ErrorMsg] | _ \<Rightarrow> [ErrorFlag])
      else case val of
        STRING x \<Rightarrow> [stringSlot key]
      | BOOL b \<Rightarrow> [stringSlot key]
      | ARRAY x \<Rightarrow> [stringSlot key]
      | INVALID \<Rightarrow> []
      | _ \<Rightarrow> [metricSlot key])"

text \<open>The parts written by a sequence of attributes.\<close>

definition written :: "KeyValue list \<Rightarrow> slot set" where
  "written attrs = set (concat (map (\<lambda>attr. slots (Key attr) (Value attr)) attrs))"

section \<open>Auxiliary definitions\<close>

text \<open>
  The record \<open>convertSpan\<close> holds when it reaches its two loops: the status table has
  been consulted, the span kind examined, the error tags and the status tags written, and
  no attribute dispatched yet.
\<close>

definition statusStep :: "Options \<Rightarrow> SpanData \<Rightarrow> ddSpan" where
  "statusStep e s =
     convertSpan_status s (convertSpan_code (sd_StatusCode s))
       (convertSpan_kind (sd_SpanKind s) (convertSpan_code (sd_StatusCode s))
          (convertSpan_new e s))"

text \<open>
  The two groups of value types in the switch of \<open>setTag\<close>: those it passes to
  \<open>setStringTag\<close> (string, bool, array) and those it passes to \<open>setMetric\<close> (the
  integers and the floats). An \<open>INVALID\<close> value is in neither.
\<close>

fun toStringTag :: "label_Value \<Rightarrow> bool" where
  "toStringTag (STRING x) = True"
| "toStringTag (BOOL b) = True"
| "toStringTag (ARRAY x) = True"
| "toStringTag _ = False"

fun toMetric :: "label_Value \<Rightarrow> bool" where
  "toMetric (FLOAT32 x) = True"
| "toMetric (FLOAT64 x) = True"
| "toMetric (INT32 n) = True"
| "toMetric (INT64 n) = True"
| "toMetric (UINT32 n) = True"
| "toMetric (UINT64 n) = True"
| "toMetric _ = False"

text \<open>The number that a string of decimal digits denotes, to read \<open>decimal\<close> back.\<close>

definition decimal_value :: "string \<Rightarrow> nat" where
  "decimal_value ds = foldl (\<lambda>a d. 10 * a + (of_char d - 48)) 0 ds"

text \<open>
  A span and options in the style of the repository's tests (\<open>span_test.go\<close>): a root
  span of ten seconds with status \<open>OK\<close>, a status message and no attributes, converted
  by an exporter with service \<open>my-service\<close> and no global tags.
\<close>

definition example_span :: SpanData where
  "example_span =
     \<lparr>sd_TraceID = [1, 2, 3, 4, 5, 6, 7, 8, 9, 10, 11, 12, 13, 14, 15, 16],
      sd_SpanID = [1, 2, 3, 4, 5, 6, 7, 8],
      sd_ParentSpanID = [0, 0, 0, 0, 0, 0, 0, 0],
      sd_SpanKind = SpanKindServer,
      sd_Name = ''/a/b'',
      sd_StartTime = 1000,
      sd_EndTime = 10000001000,
      sd_Attributes = [],
      sd_StatusCode = codes_OK,
      sd_StatusMessage = ''status-msg''\<rparr>"

definition example_opts :: Options where
  "example_opts = \<lparr>opts_Service = ''my-service'', opts_GlobalTags = []\<rparr>"

section \<open>Facts about the model\<close>

text \<open>The constants by name, for unfolding them together.\<close>

lemmas key_defs = ext_Error_def ext_ErrorMsg_def ext_ErrorType_def ext_ServiceName_def
  ext_ResourceName_def ext_SpanType_def ext_SamplingPriority_def ext_AnalyticsEvent_def
  ext_EventSampleRate_def keySamplingPriority_def keyStatusDescription_def keyStatusCode_def
  keyStatus_def keySpanName_def

lemmas code_defs = codes_OK_def codes_Canceled_def codes_Unknown_def codes_InvalidArgument_def
  codes_DeadlineExceeded_def codes_NotFound_def codes_AlreadyExists_def
  codes_PermissionDenied_def codes_ResourceExhausted_def codes_FailedPrecondition_def
  codes_Aborted_def codes_OutOfRange_def codes_Unimplemented_def codes_Internal_def
  codes_Unavailable_def codes_DataLoss_def codes_Unauthenticated_def

lemmas http_defs = http_StatusOK_def http_StatusBadRequest_def http_StatusUnauthorized_def
  http_StatusForbidden_def http_StatusNotFound_def http_StatusConflict_def
  http_StatusTooManyRequests_def http_StatusInternalServerError_def
  http_StatusNotImplemented_def http_StatusServiceUnavailable_def http_StatusGatewayTimeout_def

lemmas slot_defs = written_def slots_def stringSlot_def metricSlot_def

subsection \<open>Library functions\<close>

text \<open>
  A status code is a \<open>uint32\<close>: widened to 64 bits it is never negative, so both
  \<open>strconv.FormatInt(int64(code), 10)\<close> and \<open>strconv.Itoa(int(code))\<close> are the decimal
  digits of its unsigned value. \<open>decimal\<close> is read back by \<open>decimal_value\<close>, and
  \<open>BigEndian_Uint64\<close> gives the identifiers that the repository's tests expect.
\<close>

lemma sint_ucast_code: "sint (ucast (c :: 32 word) :: 64 word) = uint c"
proof -
  have lt: "uint c < 2 ^ 32" using uint_bounded[of c] by simp
  have ge: "- (2 ^ 63) \<le> uint c" by (rule order_trans[of _ 0]) simp_all
  have lt63: "uint c < 2 ^ 63" by (rule less_trans[OF lt]) simp
  have lt64: "uint c < 2 ^ 64" by (rule less_trans[OF lt]) simp
  have "take_bit 64 (uint c) = uint c"
    by (rule take_bit_int_eq_self[OF _ lt64]) simp
  moreover have "signed_take_bit 63 (uint c) = uint c"
    by (rule signed_take_bit_int_eq_self[OF ge lt63])
  ultimately show ?thesis
    by (simp add: sint_uint unsigned_ucast_eq)
qed

lemma FormatInt_code: "strconv_FormatInt (ucast (c :: 32 word)) = decimal (unat c)"
  by (simp add: strconv_FormatInt_def sint_ucast_code)

lemma Itoa_code: "strconv_Itoa (ucast (c :: 32 word)) = decimal (unat c)"
  by (simp add: strconv_Itoa_def strconv_FormatInt_def sint_ucast_code)

lemma digit_char: "n < 10 \<Longrightarrow> of_char (''0123456789'' ! n) = 48 + n"
proof -
  assume "n < 10"
  then have "n \<in> {0, 1, 2, 3, 4, 5, 6, 7, 8, 9}" by auto
  then show ?thesis by auto
qed

lemma decimal_value_decimal: "decimal_value (decimal n) = n"
proof (induction n rule: decimal.induct)
  case (1 n)
  show ?case
  proof (cases "n < 10")
    case True
    then show ?thesis
      by (subst decimal.simps) (simp add: decimal_value_def digit_char)
  next
    case False
    then have "decimal_value (decimal (n div 10)) = n div 10" using 1 by simp
    with False show ?thesis
      by (subst decimal.simps) (simp add: decimal_value_def digit_char)
  qed
qed

lemma decimal_codes_OK: "decimal (unat codes_OK) = ''0''"
  by (simp add: codes_OK_def decimal.simps)

lemma BigEndian_test:
  "BigEndian_Uint64 (drop 8 [1, 2, 3, 4, 5, 6, 7, 8, 9, 10, 11, 12, 13, 14, 15, 16])
     = 651345242494996240
   \<and> BigEndian_Uint64 [1, 2, 3, 4, 5, 6, 7, 8] = 72623859790382856
   \<and> BigEndian_Uint64 [8, 7, 6, 5, 4, 3, 2, 1] = 578437695752307201"
  by (simp add: BigEndian_Uint64_def)

subsection \<open>The status table\<close>

lemma dom_statusCodes:
  "dom statusCodes =
     {codes_OK, codes_Canceled, codes_Unknown, codes_InvalidArgument, codes_DeadlineExceeded,
      codes_NotFound, codes_AlreadyExists, codes_PermissionDenied, codes_ResourceExhausted,
      codes_FailedPrecondition, codes_Aborted, codes_OutOfRange, codes_Unimplemented,
      codes_Internal, codes_Unavailable, codes_DataLoss, codes_Unauthenticated}"
  unfolding statusCodes_def dom_map_of_conv_image_fst by simp

lemma code_OK:
  "convertSpan_code codes_OK = \<lparr>message = ''OK'', status = 200\<rparr>"
  by (simp add: convertSpan_code_def statusCodes_def code_defs http_defs)

lemma code_Canceled:
  "convertSpan_code codes_Canceled = \<lparr>message = ''CANCELLED'', status = 499\<rparr>"
  by (simp add: convertSpan_code_def statusCodes_def code_defs http_defs)

lemma code_Internal:
  "convertSpan_code codes_Internal = \<lparr>message = ''INTERNAL'', status = 500\<rparr>"
  by (simp add: convertSpan_code_def statusCodes_def code_defs http_defs)

subsection \<open>What one dispatch writes\<close>

text \<open>
  \<open>slots\<close> is exact: \<open>setTag\<close> leaves the content of every slot outside
  \<open>slots key val\<close> as it was, what it stores in a slot of \<open>slots key val\<close> is the same
  for every record, and it never leaves such a slot absent. Two records with the same
  content in every slot and the same identifiers and times are equal.
\<close>

lemma content_setMetric:
  "content sl (setMetric r k v) = (if sl = metricSlot k then Number v else content sl r)"
  by (cases sl) (simp_all add: setMetric_def metricSlot_def)

lemma content_setStringTag:
  "content sl (setStringTag r k v) =
     (if sl = stringSlot k
      then (if k = ext_AnalyticsEvent then Number (Float64_of_int (if v = ''false'' then 0 else 1)) else Text v)
      else content sl r)"
  by (cases sl) (simp_all add: setStringTag_def stringSlot_def setMetric_def metricSlot_def key_defs)

lemma stringSlot_neq [simp]: "stringSlot k \<noteq> ErrorFlag" "ErrorFlag \<noteq> stringSlot k"
  by (simp_all add: stringSlot_def metricSlot_def)

lemma metricSlot_neq [simp]: "metricSlot k \<noteq> ErrorFlag" "ErrorFlag \<noteq> metricSlot k"
  by (simp_all add: metricSlot_def)

lemma content_setTag:
  "content sl (setTag r k v) =
     (if sl \<in> set (slots k v) then content sl (setTag r' k v) else content sl r)"
proof (cases "k = ext_Error")
  case True
  then show ?thesis
    by (cases v; cases sl) (simp_all add: setTag_def slots_def)
next
  case False
  then show ?thesis
    by (cases v) (simp_all add: setTag_def slots_def content_setMetric content_setStringTag)
qed

lemma setTag_written_present:
  "sl \<in> set (slots k v) \<Longrightarrow> content sl (setTag r k v) \<noteq> Absent"
proof (cases "k = ext_Error")
  case True
  assume "sl \<in> set (slots k v)"
  with True show ?thesis
    by (cases v; cases sl) (auto simp add: setTag_def slots_def)
next
  case False
  assume "sl \<in> set (slots k v)"
  with False show ?thesis
    by (cases v) (auto simp add: setTag_def slots_def content_setMetric content_setStringTag)
qed

lemma setTag_frame:
  "TraceID (setTag r k v) = TraceID r \<and> SpanID (setTag r k v) = SpanID r
   \<and> ParentID (setTag r k v) = ParentID r \<and> Start (setTag r k v) = Start r
   \<and> Duration (setTag r k v) = Duration r"
  by (cases v) (simp_all add: setTag_def setStringTag_def setMetric_def)

lemma ddSpan_eqI:
  fixes r r' :: ddSpan
  assumes "\<And>sl. content sl r = content sl r'"
    and "TraceID r = TraceID r'" "SpanID r = SpanID r'" "ParentID r = ParentID r'"
    and "Start r = Start r'" "Duration r = Duration r'"
  shows "r = r'"
proof -
  have "Error r = Error r'" using assms(1)[of ErrorFlag] by simp
  moreover have "Service r = Service r'" using assms(1)[of ServiceField] by simp
  moreover have "Resource r = Resource r'" using assms(1)[of ResourceField] by simp
  moreover have "Type r = Type r'" using assms(1)[of TypeField] by simp
  moreover have "Name r = Name r'" using assms(1)[of NameField] by simp
  moreover have "Metrics r = Metrics r'"
  proof
    fix k show "Metrics r k = Metrics r' k"
      using assms(1)[of "Metric k"] by (auto split: option.splits)
  qed
  moreover have "Meta r = Meta r'"
  proof
    fix k show "Meta r k = Meta r' k"
      using assms(1)[of "Tag k"] by (auto split: option.splits)
  qed
  ultimately show ?thesis using assms(2-) by simp
qed

subsection \<open>What a sequence of dispatches writes\<close>

text \<open>
  A slot that no attribute of the sequence writes keeps its content; a slot holds what
  the last attribute writing it stored; and an attribute all of whose slots are written
  again later in the sequence has no influence on the result.
\<close>

lemma setTags_Nil [simp]: "setTags r [] = r"
  by (simp add: setTags_def)

lemma setTags_Cons [simp]: "setTags r (a # as) = setTags (setTag r (Key a) (Value a)) as"
  by (simp add: setTags_def)

lemma setTags_append: "setTags r (as @ bs) = setTags (setTags r as) bs"
  by (simp add: setTags_def)

lemma written_Nil [simp]: "written [] = {}"
  by (simp add: written_def)

lemma written_Cons [simp]: "written (a # as) = set (slots (Key a) (Value a)) \<union> written as"
  by (simp add: written_def)

lemma written_append [simp]: "written (as @ bs) = written as \<union> written bs"
  by (simp add: written_def)

lemma setTags_frame:
  "TraceID (setTags r as) = TraceID r \<and> SpanID (setTags r as) = SpanID r
   \<and> ParentID (setTags r as) = ParentID r \<and> Start (setTags r as) = Start r
   \<and> Duration (setTags r as) = Duration r"
  by (induction as arbitrary: r) (simp_all add: setTag_frame)

lemma content_setTags_unwritten:
  "sl \<notin> written as \<Longrightarrow> content sl (setTags r as) = content sl r"
proof (induction as arbitrary: r)
  case Nil
  then show ?case by simp
next
  case (Cons a as)
  then show ?case by (simp add: content_setTag[of sl r _ _ r])
qed

lemma content_setTags_agree:
  "(\<And>sl. sl \<notin> S \<Longrightarrow> content sl r = content sl r') \<Longrightarrow> sl \<notin> S - written as \<Longrightarrow>
   content sl (setTags r as) = content sl (setTags r' as)"
proof (induction as arbitrary: r r' S)
  case Nil
  then show ?case by simp
next
  case (Cons a as)
  let ?W = "set (slots (Key a) (Value a))"
  have step: "\<And>x. x \<notin> S - ?W \<Longrightarrow>
      content x (setTag r (Key a) (Value a)) = content x (setTag r' (Key a) (Value a))"
  proof -
    fix x assume x: "x \<notin> S - ?W"
    show "content x (setTag r (Key a) (Value a)) = content x (setTag r' (Key a) (Value a))"
    proof (cases "x \<in> ?W")
      case True
      then show ?thesis using content_setTag[of x r "Key a" "Value a" r'] by simp
    next
      case False
      with x have "x \<notin> S" by simp
      then have "content x r = content x r'" by (rule Cons.prems(1))
      with False show ?thesis
        by (simp add: content_setTag[of x r _ _ r] content_setTag[of x r' _ _ r'])
    qed
  qed
  from Cons.prems(2) have "sl \<notin> (S - ?W) - written as" by auto
  from Cons.IH[of "S - ?W", OF step this] show ?case by simp
qed

lemma content_setTags_last:
  assumes "sl \<in> set (slots (Key a) (Value a))" and "sl \<notin> written post"
  shows "content sl (setTags r (pre @ a # post)) = content sl (setTag r' (Key a) (Value a))"
proof -
  have "content sl (setTags r (pre @ a # post))
        = content sl (setTag (setTags r pre) (Key a) (Value a))"
    using assms(2) by (simp add: setTags_append content_setTags_unwritten)
  also have "\<dots> = content sl (setTag r' (Key a) (Value a))"
    using assms(1) content_setTag[of sl "setTags r pre" "Key a" "Value a" r'] by simp
  finally show ?thesis .
qed

lemma content_setTags_present:
  "sl \<in> written as \<Longrightarrow> content sl (setTags r as) \<noteq> Absent"
proof (induction as arbitrary: r)
  case Nil
  then show ?case by simp
next
  case (Cons a as)
  show ?case
  proof (cases "sl \<in> written as")
    case True
    then show ?thesis using Cons.IH by simp
  next
    case False
    with Cons.prems have "sl \<in> set (slots (Key a) (Value a))" by simp
    with False show ?thesis
      by (simp add: content_setTags_unwritten setTag_written_present)
  qed
qed

lemma content_setTags_absent:
  "content sl (setTags r as) = Absent \<longleftrightarrow> content sl r = Absent \<and> sl \<notin> written as"
  using content_setTags_present[of sl as r] content_setTags_unwritten[of sl as r]
  by (cases "sl \<in> written as") auto

lemma setTags_shadow:
  assumes "set (slots (Key g) (Value g)) \<subseteq> written post"
  shows "setTags (setTag r (Key g) (Value g)) post = setTags r post"
proof (rule ddSpan_eqI)
  fix sl
  have other: "\<And>x. x \<notin> set (slots (Key g) (Value g)) \<Longrightarrow>
      content x (setTag r (Key g) (Value g)) = content x r"
    by (simp add: content_setTag[of _ r _ _ r])
  from assms have "sl \<notin> set (slots (Key g) (Value g)) - written post" by auto
  with other show "content sl (setTags (setTag r (Key g) (Value g)) post) = content sl (setTags r post)"
    by (rule content_setTags_agree)
qed (simp_all add: setTags_frame setTag_frame)

lemma slots_subset_written: "a \<in> set as \<Longrightarrow> set (slots (Key a) (Value a)) \<subseteq> written as"
  by (induction as) auto

lemma ErrorFlag_slots: "ErrorFlag \<in> set (slots k v) \<longleftrightarrow> k = ext_Error"
  by (cases v) (simp_all add: slots_def)

lemma ErrorFlag_written: "ErrorFlag \<in> written as \<longleftrightarrow> ext_Error \<in> set (map Key as)"
  by (induction as) (auto simp: ErrorFlag_slots)

subsection \<open>The record before the loops\<close>

lemma convertSpan_statusStep:
  "convertSpan e s = setTags (statusStep e s) (opts_GlobalTags e @ sd_Attributes s)"
  by (simp add: statusStep_def convertSpan_def Let_def setTags_append)

lemma statusStep_opts [simp]:
  "statusStep (e\<lparr>opts_GlobalTags := g\<rparr>) s = statusStep e s"
  by (simp add: statusStep_def convertSpan_new_def Let_def cong: if_cong)

lemma Type_statusStep:
  "Type (statusStep e s) =
     (if sd_SpanKind s = SpanKindClient then ''client''
      else if sd_SpanKind s = SpanKindServer then ''server'' else '''')"
  by (cases "sd_SpanKind s")
     (simp_all add: statusStep_def convertSpan_status_def convertSpan_kind_def convertSpan_new_def Let_def)

lemma Error_kind:
  "Error (convertSpan_kind k code (convertSpan_new e s)) =
     (if status code div 100 = (if k = SpanKindClient then 4 else 5) then 1 else 0)"
  by (cases k) (simp_all add: convertSpan_kind_def convertSpan_new_def Let_def)

lemma Error_status [simp]: "Error (convertSpan_status s code span) = Error span"
  by (simp add: convertSpan_status_def Let_def)

lemma Error_statusStep:
  "Error (statusStep e s) =
     (if status (convertSpan_code (sd_StatusCode s)) div 100
           = (if sd_SpanKind s = SpanKindClient then 4 else 5) then 1 else 0)"
  by (simp add: statusStep_def Error_kind)

lemma Meta_kind [simp]: "Meta (convertSpan_kind k code (convertSpan_new e s)) = Map.empty"
  by (cases k) (simp_all add: convertSpan_kind_def convertSpan_new_def Let_def)

lemma Meta_statusStep:
  "Meta (statusStep e s) k =
     (if k = keyStatusDescription \<and> sd_StatusMessage s \<noteq> '''' then Some (sd_StatusMessage s)
      else if k = keyStatus then Some (message (convertSpan_code (sd_StatusCode s)))
      else if k = keyStatusCode then Some (decimal (unat (sd_StatusCode s)))
      else if k = ext_ErrorMsg \<and> Error (statusStep e s) = 1 \<and> sd_StatusMessage s \<noteq> ''''
        then Some (sd_StatusMessage s)
      else if k = ext_ErrorType \<and> Error (statusStep e s) = 1
        then Some (message (convertSpan_code (sd_StatusCode s)))
      else None)"
  by (simp add: statusStep_def convertSpan_status_def Let_def Itoa_code key_defs)

lemma Metrics_statusStep [simp]: "Metrics (statusStep e s) = Map.empty"
  by (cases "sd_SpanKind s")
     (simp_all add: statusStep_def convertSpan_status_def convertSpan_kind_def convertSpan_new_def Let_def)

subsection \<open>Fields of the returned record\<close>

lemma content_Tag_eq: "content (Tag k) r = content (Tag k) r' \<longleftrightarrow> Meta r k = Meta r' k"
  by (auto split: option.splits)

lemma content_Tag_Absent: "content (Tag k) r = Absent \<longleftrightarrow> k \<notin> dom (Meta r)"
  by (auto split: option.splits)

lemma content_Metric_Absent: "content (Metric k) r = Absent \<longleftrightarrow> k \<notin> dom (Metrics r)"
  by (auto split: option.splits)

lemma Meta_convertSpan_unwritten:
  "Tag k \<notin> written (opts_GlobalTags e @ sd_Attributes s) \<Longrightarrow>
   Meta (convertSpan e s) k = Meta (statusStep e s) k"
  unfolding convertSpan_statusStep content_Tag_eq[symmetric]
  by (rule content_setTags_unwritten)

lemma Error_convertSpan_unwritten:
  "ErrorFlag \<notin> written (opts_GlobalTags e @ sd_Attributes s) \<Longrightarrow>
   Error (convertSpan e s) = Error (statusStep e s)"
  using content_setTags_unwritten[of ErrorFlag _ "statusStep e s"]
  by (simp add: convertSpan_statusStep)

lemma Type_convertSpan_unwritten:
  "TypeField \<notin> written (opts_GlobalTags e @ sd_Attributes s) \<Longrightarrow>
   Type (convertSpan e s) = Type (statusStep e s)"
  using content_setTags_unwritten[of TypeField _ "statusStep e s"]
  by (simp add: convertSpan_statusStep)

lemma dom_Meta_convertSpan:
  "dom (Meta (convertSpan e s)) =
     dom (Meta (statusStep e s)) \<union> {k. Tag k \<in> written (opts_GlobalTags e @ sd_Attributes s)}"
proof -
  have "k \<notin> dom (Meta (convertSpan e s)) \<longleftrightarrow>
        k \<notin> dom (Meta (statusStep e s)) \<and> Tag k \<notin> written (opts_GlobalTags e @ sd_Attributes s)" for k
    unfolding content_Tag_Absent[symmetric] convertSpan_statusStep
    by (rule content_setTags_absent)
  then show ?thesis by blast
qed

lemma dom_Metrics_convertSpan:
  "dom (Metrics (convertSpan e s)) = {k. Metric k \<in> written (opts_GlobalTags e @ sd_Attributes s)}"
proof -
  have "k \<notin> dom (Metrics (convertSpan e s)) \<longleftrightarrow>
        Metric k \<notin> written (opts_GlobalTags e @ sd_Attributes s)" for k
    using content_setTags_absent[of "Metric k" "statusStep e s" "opts_GlobalTags e @ sd_Attributes s"]
    unfolding content_Metric_Absent convertSpan_statusStep by simp
  then show ?thesis by blast
qed

lemma dom_Meta_setTag: "dom (Meta r) \<subseteq> dom (Meta (setTag r k v))"
proof
  fix x assume "x \<in> dom (Meta r)"
  then have "content (Tag x) r \<noteq> Absent"
    using content_Tag_Absent[of x r] by blast
  then have "content (Tag x) (setTag r k v) \<noteq> Absent"
    using setTag_written_present[of "Tag x" k v r] content_setTag[of "Tag x" r k v r]
    by (cases "Tag x \<in> set (slots k v)") simp_all
  then show "x \<in> dom (Meta (setTag r k v))"
    using content_Tag_Absent[of x "setTag r k v"] by blast
qed

lemma dom_Metrics_setTag: "dom (Metrics r) \<subseteq> dom (Metrics (setTag r k v))"
proof
  fix x assume "x \<in> dom (Metrics r)"
  then have "content (Metric x) r \<noteq> Absent"
    using content_Metric_Absent[of x r] by blast
  then have "content (Metric x) (setTag r k v) \<noteq> Absent"
    using setTag_written_present[of "Metric x" k v r] content_setTag[of "Metric x" r k v r]
    by (cases "Metric x \<in> set (slots k v)") simp_all
  then show "x \<in> dom (Metrics (setTag r k v))"
    using content_Metric_Absent[of x "setTag r k v"] by blast
qed

lemma slots_toStringTag:
  assumes "toStringTag v"
    and "k \<notin> {ext_Error, ext_ServiceName, ext_ResourceName, ext_SpanType,
                 ext_AnalyticsEvent, keySpanName, ext_SamplingPriority}"
  shows "slots k v = [Tag k]"
  using assms by (cases v) (simp_all add: slots_def stringSlot_def)

lemma slots_toMetric:
  assumes "toMetric v" and "k \<noteq> ext_Error" and "k \<noteq> ext_SamplingPriority"
  shows "slots k v = [Metric k]"
  using assms by (cases v) (simp_all add: slots_def metricSlot_def)

subsection \<open>Two tests of the repository\<close>

text \<open>
  Two cases of the repository's \<open>TestConvertSpan\<close> in the model. \<open>tags\<close>: a server
  span with status \<open>OK\<close>, no status message, and the attributes error \<open>true\<close>,
  service name, resource name, span type and sampling priority \<open>-1\<close>. \<open>root\<close>: a
  client span with status \<open>OK\<close>, a status message, and a string, a bool and an
  integer attribute. The model returns the records the test expects, the start time and
  the duration being those of the example span.
\<close>

lemma convertSpan_test_tags:
  "let r = convertSpan example_opts (example_span\<lparr>sd_StatusMessage := '''', sd_Attributes :=
      [\<lparr>Key = ext_Error, Value = BOOL True\<rparr>,
       \<lparr>Key = ext_ServiceName, Value = STRING ''other-service''\<rparr>,
       \<lparr>Key = ext_ResourceName, Value = STRING ''other-resource''\<rparr>,
       \<lparr>Key = ext_SpanType, Value = STRING ''other-type''\<rparr>,
       \<lparr>Key = ext_SamplingPriority, Value = INT64 (- 1)\<rparr>]\<rparr>)
   in TraceID r = 651345242494996240 \<and> SpanID r = 72623859790382856 \<and> ParentID r = 0
      \<and> Type r = ''other-type'' \<and> Name r = ''opentelemetry'' \<and> Resource r = ''other-resource''
      \<and> Start r = 1000 \<and> Duration r = 10000000000 \<and> Service r = ''other-service''
      \<and> Error r = 1
      \<and> Metrics r = [keySamplingPriority \<mapsto> Float64_of_int (- 1)]
      \<and> Meta r = [keyStatus \<mapsto> ''OK'', keyStatusCode \<mapsto> ''0'']"
proof -
  have st: "statusStep example_opts (example_span\<lparr>sd_StatusMessage := '''', sd_Attributes :=
      [\<lparr>Key = ext_Error, Value = BOOL True\<rparr>,
       \<lparr>Key = ext_ServiceName, Value = STRING ''other-service''\<rparr>,
       \<lparr>Key = ext_ResourceName, Value = STRING ''other-resource''\<rparr>,
       \<lparr>Key = ext_SpanType, Value = STRING ''other-type''\<rparr>,
       \<lparr>Key = ext_SamplingPriority, Value = INT64 (- 1)\<rparr>]\<rparr>)
     = \<lparr>TraceID = 651345242494996240, SpanID = 72623859790382856, ParentID = 0,
        Name = ''opentelemetry'', Resource = ''/a/b'', Service = ''my-service'', Type = ''server'',
        Start = 1000, Duration = 10000000000, Error = 0, Metrics = Map.empty,
        Meta = [keyStatusCode \<mapsto> ''0'', keyStatus \<mapsto> ''OK'']\<rparr>"
    by (simp add: statusStep_def convertSpan_status_def convertSpan_kind_def convertSpan_new_def
          code_OK example_span_def example_opts_def Itoa_code decimal_codes_OK
          BigEndian_Uint64_def IsValid_def Let_def)
  show ?thesis
    unfolding Let_def convertSpan_statusStep st
    by (simp add: example_opts_def setTag_def setStringTag_def setMetric_def key_defs fun_upd_twist)
qed

lemma convertSpan_test_root:
  "let r = convertSpan example_opts (example_span\<lparr>sd_SpanKind := SpanKindClient, sd_Attributes :=
      [\<lparr>Key = ''str'', Value = STRING ''abc''\<rparr>,
       \<lparr>Key = ''bool'', Value = BOOL True\<rparr>,
       \<lparr>Key = ''int64'', Value = INT64 1\<rparr>]\<rparr>)
   in TraceID r = 651345242494996240 \<and> SpanID r = 72623859790382856 \<and> ParentID r = 0
      \<and> Type r = ''client'' \<and> Name r = ''opentelemetry'' \<and> Resource r = ''/a/b''
      \<and> Start r = 1000 \<and> Duration r = 10000000000 \<and> Service r = ''my-service''
      \<and> Error r = 0
      \<and> Metrics r = [''int64'' \<mapsto> Float64_of_int 1]
      \<and> Meta r = [keyStatusDescription \<mapsto> ''status-msg'', keyStatus \<mapsto> ''OK'',
                   keyStatusCode \<mapsto> ''0'', ''bool'' \<mapsto> ''true'', ''str'' \<mapsto> ''abc'']"
proof -
  have st: "statusStep example_opts (example_span\<lparr>sd_SpanKind := SpanKindClient, sd_Attributes :=
      [\<lparr>Key = ''str'', Value = STRING ''abc''\<rparr>,
       \<lparr>Key = ''bool'', Value = BOOL True\<rparr>,
       \<lparr>Key = ''int64'', Value = INT64 1\<rparr>]\<rparr>)
     = \<lparr>TraceID = 651345242494996240, SpanID = 72623859790382856, ParentID = 0,
        Name = ''opentelemetry'', Resource = ''/a/b'', Service = ''my-service'', Type = ''client'',
        Start = 1000, Duration = 10000000000, Error = 0, Metrics = Map.empty,
        Meta = [keyStatusCode \<mapsto> ''0'', keyStatus \<mapsto> ''OK'',
                keyStatusDescription \<mapsto> ''status-msg'']\<rparr>"
    by (simp add: statusStep_def convertSpan_status_def convertSpan_kind_def convertSpan_new_def
          code_OK example_span_def example_opts_def Itoa_code decimal_codes_OK
          BigEndian_Uint64_def IsValid_def Let_def)
  show ?thesis
    unfolding Let_def convertSpan_statusStep st
    by (simp add: example_opts_def setTag_def setStringTag_def setMetric_def key_defs)
       (auto simp: fun_eq_iff)
qed

section \<open>The claims\<close>

subsection \<open>C1: status tags and error tags\<close>

text \<open>
  C1, as amended. For every converted span the two tags \<open>opentelemetry.status_code\<close> and
  \<open>opentelemetry.status\<close> are present in \<open>Meta\<close>, and
  \<open>opentelemetry.status_description\<close> is present when the status message is not empty,
  whatever the error state. Each of them holds the decimal status code, the resolved
  status message and the status message respectively, unless a global tag or an attribute
  is stored as a tag under that key. When no global tag or attribute has the error key
  and none is stored as a tag under \<open>error.type\<close> or \<open>error.msg\<close>, the tag
  \<open>error.type\<close> is present exactly when the error flag of the returned record is 1 (and
  then holds the resolved status message), and the tag \<open>error.msg\<close> is present exactly
  when the error flag is 1 and the status message is not empty (and then holds it).
\<close>

theorem status_and_error_tags:
  "let r = convertSpan e s;
       W = written (opts_GlobalTags e @ sd_Attributes s);
       code = convertSpan_code (sd_StatusCode s);
       msg = sd_StatusMessage s
   in keyStatusCode \<in> dom (Meta r) \<and> keyStatus \<in> dom (Meta r)
      \<and> (msg \<noteq> '''' \<longrightarrow> keyStatusDescription \<in> dom (Meta r))
      \<and> (Tag keyStatusCode \<notin> W \<longrightarrow> Meta r keyStatusCode = Some (decimal (unat (sd_StatusCode s))))
      \<and> (Tag keyStatus \<notin> W \<longrightarrow> Meta r keyStatus = Some (message code))
      \<and> (Tag keyStatusDescription \<notin> W \<longrightarrow>
            Meta r keyStatusDescription = (if msg = '''' then None else Some msg))
      \<and> (ext_Error \<notin> set (map Key (opts_GlobalTags e @ sd_Attributes s))
           \<and> Tag ext_ErrorType \<notin> W \<and> Tag ext_ErrorMsg \<notin> W \<longrightarrow>
            Meta r ext_ErrorType = (if Error r = 1 then Some (message code) else None)
            \<and> Meta r ext_ErrorMsg = (if Error r = 1 \<and> msg \<noteq> '''' then Some msg else None))"
proof -
  let ?W = "written (opts_GlobalTags e @ sd_Attributes s)"
  have present: "keyStatusCode \<in> dom (Meta (convertSpan e s))"
    "keyStatus \<in> dom (Meta (convertSpan e s))"
    "sd_StatusMessage s \<noteq> '''' \<longrightarrow> keyStatusDescription \<in> dom (Meta (convertSpan e s))"
  proof -
    have sub: "dom (Meta (statusStep e s)) \<subseteq> dom (Meta (convertSpan e s))"
      by (simp add: dom_Meta_convertSpan)
    have "keyStatusCode \<in> dom (Meta (statusStep e s))"
      by (simp add: domIff Meta_statusStep key_defs)
    then show "keyStatusCode \<in> dom (Meta (convertSpan e s))" using sub by (rule rev_subsetD)
    have "keyStatus \<in> dom (Meta (statusStep e s))"
      by (simp add: domIff Meta_statusStep key_defs)
    then show "keyStatus \<in> dom (Meta (convertSpan e s))" using sub by (rule rev_subsetD)
    have "sd_StatusMessage s \<noteq> [] \<longrightarrow> keyStatusDescription \<in> dom (Meta (statusStep e s))"
      by (simp add: domIff Meta_statusStep key_defs)
    then show "sd_StatusMessage s \<noteq> [] \<longrightarrow> keyStatusDescription \<in> dom (Meta (convertSpan e s))"
      using sub by blast
  qed
  have vals: "Tag keyStatusCode \<notin> ?W \<longrightarrow>
      Meta (convertSpan e s) keyStatusCode = Some (decimal (unat (sd_StatusCode s)))"
    "Tag keyStatus \<notin> ?W \<longrightarrow>
      Meta (convertSpan e s) keyStatus = Some (message (convertSpan_code (sd_StatusCode s)))"
    "Tag keyStatusDescription \<notin> ?W \<longrightarrow>
      Meta (convertSpan e s) keyStatusDescription
        = (if sd_StatusMessage s = '''' then None else Some (sd_StatusMessage s))"
    by (simp_all add: Meta_convertSpan_unwritten Meta_statusStep key_defs)
  have errors: "ext_Error \<notin> set (map Key (opts_GlobalTags e @ sd_Attributes s))
           \<and> Tag ext_ErrorType \<notin> ?W \<and> Tag ext_ErrorMsg \<notin> ?W \<longrightarrow>
      Meta (convertSpan e s) ext_ErrorType
        = (if Error (convertSpan e s) = 1
           then Some (message (convertSpan_code (sd_StatusCode s))) else None)
      \<and> Meta (convertSpan e s) ext_ErrorMsg
        = (if Error (convertSpan e s) = 1 \<and> sd_StatusMessage s \<noteq> ''''
           then Some (sd_StatusMessage s) else None)"
  proof (intro impI, elim conjE)
    assume "ext_Error \<notin> set (map Key (opts_GlobalTags e @ sd_Attributes s))"
    then have "ErrorFlag \<notin> ?W" by (simp only: ErrorFlag_written not_False_eq_True)
    then have err: "Error (convertSpan e s) = Error (statusStep e s)"
      by (rule Error_convertSpan_unwritten)
    assume "Tag ext_ErrorType \<notin> ?W" "Tag ext_ErrorMsg \<notin> ?W"
    then have "Meta (convertSpan e s) ext_ErrorType = Meta (statusStep e s) ext_ErrorType"
      "Meta (convertSpan e s) ext_ErrorMsg = Meta (statusStep e s) ext_ErrorMsg"
      by (simp_all add: Meta_convertSpan_unwritten)
    then show "Meta (convertSpan e s) ext_ErrorType
        = (if Error (convertSpan e s) = 1
           then Some (message (convertSpan_code (sd_StatusCode s))) else None)
      \<and> Meta (convertSpan e s) ext_ErrorMsg
        = (if Error (convertSpan e s) = 1 \<and> sd_StatusMessage s \<noteq> ''''
           then Some (sd_StatusMessage s) else None)"
      by (simp add: err Meta_statusStep key_defs)
  qed
  show ?thesis
    unfolding Let_def using present vals errors by (intro conjI)
qed

text \<open>
  C1, witness: a server span with status \<open>Internal\<close>, the message \<open>status-msg\<close> and
  one string attribute \<open>str\<close>.
\<close>

theorem status_and_error_tags_witness:
  "let s = example_span\<lparr>sd_StatusCode := codes_Internal,
             sd_Attributes := [\<lparr>Key = ''str'', Value = STRING ''abc''\<rparr>]\<rparr>;
       r = convertSpan example_opts s;
       W = written (opts_GlobalTags example_opts @ sd_Attributes s)
   in sd_StatusMessage s \<noteq> '''' \<and> Tag keyStatusCode \<notin> W \<and> Tag keyStatus \<notin> W
      \<and> Tag keyStatusDescription \<notin> W
      \<and> ext_Error \<notin> set (map Key (opts_GlobalTags example_opts @ sd_Attributes s))
      \<and> Tag ext_ErrorType \<notin> W \<and> Tag ext_ErrorMsg \<notin> W
      \<and> Error r = 1
      \<and> Meta r keyStatusCode = Some ''13''
      \<and> Meta r keyStatus = Some ''INTERNAL''
      \<and> Meta r keyStatusDescription = Some ''status-msg''
      \<and> Meta r ext_ErrorType = Some ''INTERNAL''
      \<and> Meta r ext_ErrorMsg = Some ''status-msg''"
proof -
  let ?s = "example_span\<lparr>sd_StatusCode := codes_Internal,
             sd_Attributes := [\<lparr>Key = ''str'', Value = STRING ''abc''\<rparr>]\<rparr>"
  let ?r = "convertSpan example_opts ?s"
  have W: "written (opts_GlobalTags example_opts @ sd_Attributes ?s) = {Tag ''str''}"
    by (simp add: example_opts_def slot_defs key_defs)
  have K: "map Key (opts_GlobalTags example_opts @ sd_Attributes ?s) = [''str'']"
    by (simp add: example_opts_def)
  have msg: "sd_StatusMessage ?s = ''status-msg''"
    by (simp add: example_span_def)
  have code: "convertSpan_code (sd_StatusCode ?s) = \<lparr>message = ''INTERNAL'', status = 500\<rparr>"
    by (simp add: code_Internal)
  have dec: "decimal (unat (sd_StatusCode ?s)) = ''13''"
    by (simp add: codes_Internal_def decimal.simps)
  have E: "Error ?r = 1"
    by (simp add: convertSpan_statusStep example_opts_def setTag_def setStringTag_def key_defs
          Error_statusStep code_Internal)
       (simp add: example_span_def)
  show ?thesis
    using status_and_error_tags[of example_opts ?s]
    unfolding Let_def W K msg code dec E
    by (simp add: key_defs)
qed

text \<open>
  C1, counterexample to the claim as stated: a span with status \<open>OK\<close> and the attribute
  error \<open>true\<close> is returned with error flag 1 and neither \<open>error.type\<close> nor
  \<open>error.msg\<close> in \<open>Meta\<close>.
\<close>

theorem status_and_error_tags_counterexample:
  "Error (convertSpan example_opts
      (example_span\<lparr>sd_Attributes := [\<lparr>Key = ext_Error, Value = BOOL True\<rparr>]\<rparr>)) = 1
   \<and> ext_ErrorType \<notin> dom (Meta (convertSpan example_opts
      (example_span\<lparr>sd_Attributes := [\<lparr>Key = ext_Error, Value = BOOL True\<rparr>]\<rparr>)))
   \<and> ext_ErrorMsg \<notin> dom (Meta (convertSpan example_opts
      (example_span\<lparr>sd_Attributes := [\<lparr>Key = ext_Error, Value = BOOL True\<rparr>]\<rparr>)))"
  by (simp add: convertSpan_statusStep example_opts_def setTag_def domIff Meta_statusStep
        Error_statusStep code_OK key_defs)
     (simp add: example_span_def code_OK)

subsection \<open>C2: one destination per dispatch\<close>

text \<open>
  C2, as amended. One dispatch writes at most one of the two mappings: it leaves
  \<open>Meta\<close> or \<open>Metrics\<close> as it was; and it never removes a key from either mapping.
  A key is present in both mappings of the returned record exactly when some global tag
  or attribute is stored as a metric under it and it is also a tag, written by the status
  tags and error tags or by some global tag or attribute. So no key is in both mappings
  when the keys written as tags and the keys written as metrics are disjoint. When two
  of the global tags and attributes (in particular a global tag and a span attribute)
  share a key, one with a string, bool or array value and the other with an integer or
  float value, and the key is none of \<open>error\<close>, \<open>service.name\<close>, \<open>resource.name\<close>,
  \<open>span.type\<close>, \<open>analytics.event\<close>, \<open>span.name\<close> and \<open>sampling.priority\<close>, that
  key is in both mappings of the returned record.
\<close>

theorem one_slot_per_dispatch:
  "(Meta (setTag r k v) = Meta r \<or> Metrics (setTag r k v) = Metrics r)
   \<and> dom (Meta r) \<subseteq> dom (Meta (setTag r k v))
   \<and> dom (Metrics r) \<subseteq> dom (Metrics (setTag r k v))
   \<and> dom (Meta (convertSpan e s)) \<inter> dom (Metrics (convertSpan e s))
       = {k. Metric k \<in> written (opts_GlobalTags e @ sd_Attributes s)
             \<and> (Tag k \<in> written (opts_GlobalTags e @ sd_Attributes s)
                  \<or> k \<in> dom (Meta (statusStep e s)))}
   \<and> ({k. Metric k \<in> written (opts_GlobalTags e @ sd_Attributes s)}
        \<inter> ({k. Tag k \<in> written (opts_GlobalTags e @ sd_Attributes s)}
             \<union> dom (Meta (statusStep e s))) = {}
       \<longrightarrow> dom (Meta (convertSpan e s)) \<inter> dom (Metrics (convertSpan e s)) = {})
   \<and> (a \<in> set (opts_GlobalTags e @ sd_Attributes s)
        \<and> b \<in> set (opts_GlobalTags e @ sd_Attributes s)
        \<and> Key a = Key b \<and> toStringTag (Value a) \<and> toMetric (Value b)
        \<and> Key a \<notin> {ext_Error, ext_ServiceName, ext_ResourceName, ext_SpanType,
                        ext_AnalyticsEvent, keySpanName, ext_SamplingPriority}
       \<longrightarrow> Key a \<in> dom (Meta (convertSpan e s)) \<inter> dom (Metrics (convertSpan e s)))"
proof -
  let ?W = "written (opts_GlobalTags e @ sd_Attributes s)"
  have one: "Meta (setTag r k v) = Meta r \<or> Metrics (setTag r k v) = Metrics r"
    by (cases v) (auto simp: setTag_def setStringTag_def setMetric_def)
  have keepTags: "dom (Meta r) \<subseteq> dom (Meta (setTag r k v))"
    by (rule dom_Meta_setTag)
  have keepMetrics: "dom (Metrics r) \<subseteq> dom (Metrics (setTag r k v))"
    by (rule dom_Metrics_setTag)
  have both: "dom (Meta (convertSpan e s)) \<inter> dom (Metrics (convertSpan e s))
       = {k. Metric k \<in> ?W \<and> (Tag k \<in> ?W \<or> k \<in> dom (Meta (statusStep e s)))}"
    unfolding dom_Meta_convertSpan dom_Metrics_convertSpan by blast
  have disjoint: "{k. Metric k \<in> ?W} \<inter> ({k. Tag k \<in> ?W} \<union> dom (Meta (statusStep e s))) = {}
       \<longrightarrow> dom (Meta (convertSpan e s)) \<inter> dom (Metrics (convertSpan e s)) = {}"
    unfolding both by blast
  have shared: "a \<in> set (opts_GlobalTags e @ sd_Attributes s)
        \<and> b \<in> set (opts_GlobalTags e @ sd_Attributes s)
        \<and> Key a = Key b \<and> toStringTag (Value a) \<and> toMetric (Value b)
        \<and> Key a \<notin> {ext_Error, ext_ServiceName, ext_ResourceName, ext_SpanType,
                        ext_AnalyticsEvent, keySpanName, ext_SamplingPriority}
       \<longrightarrow> Key a \<in> dom (Meta (convertSpan e s)) \<inter> dom (Metrics (convertSpan e s))"
  proof (intro impI, elim conjE)
    assume a: "a \<in> set (opts_GlobalTags e @ sd_Attributes s)"
      and b: "b \<in> set (opts_GlobalTags e @ sd_Attributes s)"
      and ab: "Key a = Key b"
      and sa: "toStringTag (Value a)" and mb: "toMetric (Value b)"
      and free: "Key a \<notin> {ext_Error, ext_ServiceName, ext_ResourceName, ext_SpanType,
                        ext_AnalyticsEvent, keySpanName, ext_SamplingPriority}"
    from sa free have "slots (Key a) (Value a) = [Tag (Key a)]"
      by (rule slots_toStringTag)
    with a have tag: "Tag (Key a) \<in> ?W"
      using slots_subset_written[of a "opts_GlobalTags e @ sd_Attributes s"] by simp
    from free ab have "Key b \<noteq> ext_Error" "Key b \<noteq> ext_SamplingPriority"
      by simp_all
    with mb have "slots (Key b) (Value b) = [Metric (Key b)]"
      by (rule slots_toMetric)
    with b ab have metric: "Metric (Key a) \<in> ?W"
      using slots_subset_written[of b "opts_GlobalTags e @ sd_Attributes s"] by simp
    from tag metric show "Key a \<in> dom (Meta (convertSpan e s)) \<inter> dom (Metrics (convertSpan e s))"
      unfolding both by blast
  qed
  from one keepTags keepMetrics both disjoint shared show ?thesis
    by (intro conjI)
qed

text \<open>
  C2, witness: with one string attribute \<open>str\<close> and one integer attribute \<open>int64\<close>
  the keys written as tags and as metrics are disjoint and no key is in both mappings;
  with the global tag \<open>env = "prod"\<close> and the span attribute \<open>env = 2\<close> the key
  \<open>env\<close> is in both.
\<close>

theorem one_slot_per_dispatch_witness:
  "{k. Metric k \<in> written (opts_GlobalTags example_opts
         @ sd_Attributes (example_span\<lparr>sd_Attributes := [\<lparr>Key = ''str'', Value = STRING ''abc''\<rparr>,
                                         \<lparr>Key = ''int64'', Value = INT64 1\<rparr>]\<rparr>))}
     \<inter> ({k. Tag k \<in> written (opts_GlobalTags example_opts
         @ sd_Attributes (example_span\<lparr>sd_Attributes := [\<lparr>Key = ''str'', Value = STRING ''abc''\<rparr>,
                                         \<lparr>Key = ''int64'', Value = INT64 1\<rparr>]\<rparr>))}
          \<union> dom (Meta (statusStep example_opts
              (example_span\<lparr>sd_Attributes := [\<lparr>Key = ''str'', Value = STRING ''abc''\<rparr>,
                                         \<lparr>Key = ''int64'', Value = INT64 1\<rparr>]\<rparr>)))) = {}
   \<and> dom (Meta (convertSpan example_opts
      (example_span\<lparr>sd_Attributes := [\<lparr>Key = ''str'', Value = STRING ''abc''\<rparr>,
                                         \<lparr>Key = ''int64'', Value = INT64 1\<rparr>]\<rparr>)))
     \<inter> dom (Metrics (convertSpan example_opts
      (example_span\<lparr>sd_Attributes := [\<lparr>Key = ''str'', Value = STRING ''abc''\<rparr>,
                                         \<lparr>Key = ''int64'', Value = INT64 1\<rparr>]\<rparr>))) = {}
   \<and> toStringTag (STRING ''prod'') \<and> toMetric (INT64 2)
   \<and> ''env'' \<notin> {ext_Error, ext_ServiceName, ext_ResourceName, ext_SpanType,
                    ext_AnalyticsEvent, keySpanName, ext_SamplingPriority}
   \<and> ''env'' \<in> dom (Meta (convertSpan
          (example_opts\<lparr>opts_GlobalTags := [\<lparr>Key = ''env'', Value = STRING ''prod''\<rparr>]\<rparr>)
          (example_span\<lparr>sd_Attributes := [\<lparr>Key = ''env'', Value = INT64 2\<rparr>]\<rparr>)))
   \<and> ''env'' \<in> dom (Metrics (convertSpan
          (example_opts\<lparr>opts_GlobalTags := [\<lparr>Key = ''env'', Value = STRING ''prod''\<rparr>]\<rparr>)
          (example_span\<lparr>sd_Attributes := [\<lparr>Key = ''env'', Value = INT64 2\<rparr>]\<rparr>)))"
proof -
  let ?s = "example_span\<lparr>sd_Attributes := [\<lparr>Key = ''str'', Value = STRING ''abc''\<rparr>,
                                         \<lparr>Key = ''int64'', Value = INT64 1\<rparr>]\<rparr>"
  have W: "written (opts_GlobalTags example_opts @ sd_Attributes ?s) = {Tag ''str'', Metric ''int64''}"
    by (simp add: example_opts_def slot_defs key_defs)
  have M: "''int64'' \<notin> dom (Meta (statusStep example_opts ?s))"
    by (simp add: domIff Meta_statusStep key_defs)
  have D: "{k. Metric k \<in> written (opts_GlobalTags example_opts @ sd_Attributes ?s)}
     \<inter> ({k. Tag k \<in> written (opts_GlobalTags example_opts @ sd_Attributes ?s)}
          \<union> dom (Meta (statusStep example_opts ?s))) = {}"
    unfolding W using M by auto
  note T1 = one_slot_per_dispatch[of _ _ _ example_opts ?s]
  have none: "dom (Meta (convertSpan example_opts ?s))
      \<inter> dom (Metrics (convertSpan example_opts ?s)) = {}"
    using T1[THEN conjunct2, THEN conjunct2, THEN conjunct2, THEN conjunct2, THEN conjunct1,
        THEN mp, OF D] .
  let ?g = "\<lparr>Key = ''env'', Value = STRING ''prod''\<rparr>"
  let ?l = "\<lparr>Key = ''env'', Value = INT64 2\<rparr>"
  let ?e2 = "example_opts\<lparr>opts_GlobalTags := [?g]\<rparr>"
  let ?s2 = "example_span\<lparr>sd_Attributes := [?l]\<rparr>"
  have free: "''env'' \<notin> {ext_Error, ext_ServiceName, ext_ResourceName, ext_SpanType,
                    ext_AnalyticsEvent, keySpanName, ext_SamplingPriority}"
    by (simp add: key_defs)
  have H: "?g \<in> set (opts_GlobalTags ?e2 @ sd_Attributes ?s2)
        \<and> ?l \<in> set (opts_GlobalTags ?e2 @ sd_Attributes ?s2)
        \<and> Key ?g = Key ?l \<and> toStringTag (Value ?g) \<and> toMetric (Value ?l)
        \<and> Key ?g \<notin> {ext_Error, ext_ServiceName, ext_ResourceName, ext_SpanType,
                        ext_AnalyticsEvent, keySpanName, ext_SamplingPriority}"
    using free by simp
  note T2 = one_slot_per_dispatch[of _ _ _ ?e2 ?s2 ?g ?l]
  have "Key ?g \<in> dom (Meta (convertSpan ?e2 ?s2)) \<inter> dom (Metrics (convertSpan ?e2 ?s2))"
    using T2[THEN conjunct2, THEN conjunct2, THEN conjunct2, THEN conjunct2, THEN conjunct2,
        THEN mp, OF H] .
  then have both: "''env'' \<in> dom (Meta (convertSpan ?e2 ?s2))"
    "''env'' \<in> dom (Metrics (convertSpan ?e2 ?s2))"
    by simp_all
  from D none free both show ?thesis
    by simp
qed

text \<open>
  C2, counterexample to the claim as stated: a global tag \<open>key1\<close> with a string value
  and a span attribute \<open>key1\<close> with an integer value leave \<open>key1\<close> both in \<open>Meta\<close>
  and in \<open>Metrics\<close>.
\<close>

theorem one_slot_per_dispatch_counterexample:
  "Meta (convertSpan (example_opts\<lparr>opts_GlobalTags := [\<lparr>Key = ''key1'', Value = STRING ''value1''\<rparr>]\<rparr>)
      (example_span\<lparr>sd_Attributes := [\<lparr>Key = ''key1'', Value = INT64 1\<rparr>]\<rparr>)) ''key1''
     = Some ''value1''
   \<and> Metrics (convertSpan (example_opts\<lparr>opts_GlobalTags := [\<lparr>Key = ''key1'', Value = STRING ''value1''\<rparr>]\<rparr>)
      (example_span\<lparr>sd_Attributes := [\<lparr>Key = ''key1'', Value = INT64 1\<rparr>]\<rparr>)) ''key1''
     = Some (Float64_of_int 1)"
  by (simp add: convertSpan_statusStep setTag_def setStringTag_def setMetric_def key_defs)

subsection \<open>C3: spans of client kind\<close>

text \<open>
  C3, as amended. For every span of client kind: when no global tag or attribute writes
  the span type (none with the key \<open>span.type\<close> has a string, bool or array value), the
  returned record has span type \<open>client\<close>; and when no global tag or attribute has the
  error key, its error flag is 1 if the resolved status is in the 4xx class and 0 in
  every other class, 5xx included.
\<close>

theorem client_kind:
  assumes "sd_SpanKind s = SpanKindClient"
  shows "(TypeField \<notin> written (opts_GlobalTags e @ sd_Attributes s) \<longrightarrow>
            Type (convertSpan e s) = ''client'')
       \<and> (ext_Error \<notin> set (map Key (opts_GlobalTags e @ sd_Attributes s)) \<longrightarrow>
            Error (convertSpan e s)
              = (if status (convertSpan_code (sd_StatusCode s)) div 100 = 4 then 1 else 0))"
  using assms
  by (simp add: Type_convertSpan_unwritten Type_statusStep Error_statusStep
        Error_convertSpan_unwritten ErrorFlag_written)

text \<open>C3, witness: a client span with status \<open>Canceled\<close> (499) and no attributes.\<close>

theorem client_kind_witness:
  "sd_SpanKind (example_span\<lparr>sd_SpanKind := SpanKindClient, sd_StatusCode := codes_Canceled\<rparr>)
     = SpanKindClient
   \<and> TypeField \<notin> written (opts_GlobalTags example_opts
        @ sd_Attributes (example_span\<lparr>sd_SpanKind := SpanKindClient, sd_StatusCode := codes_Canceled\<rparr>))
   \<and> ext_Error \<notin> set (map Key (opts_GlobalTags example_opts
        @ sd_Attributes (example_span\<lparr>sd_SpanKind := SpanKindClient, sd_StatusCode := codes_Canceled\<rparr>)))
   \<and> Type (convertSpan example_opts
        (example_span\<lparr>sd_SpanKind := SpanKindClient, sd_StatusCode := codes_Canceled\<rparr>)) = ''client''
   \<and> Error (convertSpan example_opts
        (example_span\<lparr>sd_SpanKind := SpanKindClient, sd_StatusCode := codes_Canceled\<rparr>)) = 1"
proof -
  let ?s = "example_span\<lparr>sd_SpanKind := SpanKindClient, sd_StatusCode := codes_Canceled\<rparr>"
  have kind: "sd_SpanKind ?s = SpanKindClient" by simp
  have attrs: "opts_GlobalTags example_opts @ sd_Attributes ?s = []"
    by (simp add: example_opts_def example_span_def)
  have code: "convertSpan_code (sd_StatusCode ?s) = \<lparr>message = ''CANCELLED'', status = 499\<rparr>"
    by (simp add: code_Canceled)
  show ?thesis
    using client_kind[OF kind, of example_opts]
    unfolding attrs code by simp
qed

text \<open>
  C3, counterexample to the claim as stated: a client span with status \<open>Canceled\<close> (499)
  and the attributes \<open>span.type = "web"\<close> and error \<open>false\<close> is returned with span type
  \<open>web\<close> and error flag 0.
\<close>

theorem client_kind_counterexample:
  "sd_SpanKind (example_span\<lparr>sd_SpanKind := SpanKindClient, sd_StatusCode := codes_Canceled,
      sd_Attributes := [\<lparr>Key = ext_SpanType, Value = STRING ''web''\<rparr>,
                        \<lparr>Key = ext_Error, Value = BOOL False\<rparr>]\<rparr>) = SpanKindClient
   \<and> status (convertSpan_code codes_Canceled) div 100 = 4
   \<and> Type (convertSpan example_opts
        (example_span\<lparr>sd_SpanKind := SpanKindClient, sd_StatusCode := codes_Canceled,
           sd_Attributes := [\<lparr>Key = ext_SpanType, Value = STRING ''web''\<rparr>,
                             \<lparr>Key = ext_Error, Value = BOOL False\<rparr>]\<rparr>)) = ''web''
   \<and> Error (convertSpan example_opts
        (example_span\<lparr>sd_SpanKind := SpanKindClient, sd_StatusCode := codes_Canceled,
           sd_Attributes := [\<lparr>Key = ext_SpanType, Value = STRING ''web''\<rparr>,
                             \<lparr>Key = ext_Error, Value = BOOL False\<rparr>]\<rparr>)) = 0"
  by (simp add: convertSpan_statusStep example_opts_def code_Canceled setTag_def
        setStringTag_def key_defs)

subsection \<open>C4: spans of server kind\<close>

text \<open>
  C4, as amended. For every span of server kind, the record before the attributes are
  dispatched has span type \<open>server\<close> and its error flag is 1 exactly when the resolved
  status is in the 5xx class (a 4xx class leaves it 0). The returned record has span type
  \<open>server\<close> when no global tag or attribute writes the span type, and the same error
  flag when no global tag or attribute has the error key.
\<close>

theorem server_kind:
  assumes "sd_SpanKind s = SpanKindServer"
  shows "Type (statusStep e s) = ''server''
       \<and> Error (statusStep e s)
           = (if status (convertSpan_code (sd_StatusCode s)) div 100 = 5 then 1 else 0)
       \<and> (TypeField \<notin> written (opts_GlobalTags e @ sd_Attributes s) \<longrightarrow>
            Type (convertSpan e s) = ''server'')
       \<and> (ext_Error \<notin> set (map Key (opts_GlobalTags e @ sd_Attributes s)) \<longrightarrow>
            Error (convertSpan e s)
              = (if status (convertSpan_code (sd_StatusCode s)) div 100 = 5 then 1 else 0))"
  using assms
  by (simp add: Type_convertSpan_unwritten Type_statusStep Error_statusStep
        Error_convertSpan_unwritten ErrorFlag_written)

text \<open>C4, witness: a server span with status \<open>Internal\<close> (500) and no attributes.\<close>

theorem server_kind_witness:
  "sd_SpanKind (example_span\<lparr>sd_StatusCode := codes_Internal\<rparr>) = SpanKindServer
   \<and> TypeField \<notin> written (opts_GlobalTags example_opts
        @ sd_Attributes (example_span\<lparr>sd_StatusCode := codes_Internal\<rparr>))
   \<and> ext_Error \<notin> set (map Key (opts_GlobalTags example_opts
        @ sd_Attributes (example_span\<lparr>sd_StatusCode := codes_Internal\<rparr>)))
   \<and> Type (convertSpan example_opts (example_span\<lparr>sd_StatusCode := codes_Internal\<rparr>)) = ''server''
   \<and> Error (convertSpan example_opts (example_span\<lparr>sd_StatusCode := codes_Internal\<rparr>)) = 1"
proof -
  let ?s = "example_span\<lparr>sd_StatusCode := codes_Internal\<rparr>"
  have kind: "sd_SpanKind ?s = SpanKindServer" by (simp add: example_span_def)
  have attrs: "opts_GlobalTags example_opts @ sd_Attributes ?s = []"
    by (simp add: example_opts_def example_span_def)
  have code: "convertSpan_code (sd_StatusCode ?s) = \<lparr>message = ''INTERNAL'', status = 500\<rparr>"
    by (simp add: code_Internal)
  show ?thesis
    using server_kind[OF kind, of example_opts]
    unfolding attrs code by (simp add: kind)
qed

text \<open>
  C4, counterexample to the claim as stated (from the repository's test \<open>tags\<close>): a
  server span with the attribute \<open>span.type = "other-type"\<close> is returned with span type
  \<open>other-type\<close>.
\<close>

theorem server_kind_counterexample:
  "sd_SpanKind (example_span\<lparr>sd_Attributes := [\<lparr>Key = ext_SpanType, Value = STRING ''other-type''\<rparr>]\<rparr>)
     = SpanKindServer
   \<and> Type (convertSpan example_opts
        (example_span\<lparr>sd_Attributes := [\<lparr>Key = ext_SpanType, Value = STRING ''other-type''\<rparr>]\<rparr>))
     = ''other-type''"
  by (simp add: convertSpan_statusStep example_opts_def setTag_def setStringTag_def key_defs)
     (simp add: example_span_def)

subsection \<open>C5: the error key\<close>

text \<open>
  C5. An attribute with the error key changes the record by its value alone: a string
  sets the error flag to 1 and stores the string as the tag \<open>error.msg\<close>; a bool sets the
  flag to 1 if true and to 0 if false; a signed or unsigned integer of 32 or 64 bits sets
  it to 1 if the value is greater than zero and to 0 otherwise; an invalid value sets it
  to 0; a float of either width and an array set it to 1. Nothing else is written.
\<close>

theorem setError_by_type:
  "setTag s ext_Error (STRING x) = s\<lparr>Error := 1, Meta := (Meta s)(ext_ErrorMsg \<mapsto> x)\<rparr>
   \<and> setTag s ext_Error (BOOL b) = s\<lparr>Error := (if b then 1 else 0)\<rparr>
   \<and> setTag s ext_Error (INT32 i) = s\<lparr>Error := (if 0 < sint i then 1 else 0)\<rparr>
   \<and> setTag s ext_Error (INT64 j) = s\<lparr>Error := (if 0 < sint j then 1 else 0)\<rparr>
   \<and> setTag s ext_Error (UINT32 u) = s\<lparr>Error := (if 0 < uint u then 1 else 0)\<rparr>
   \<and> setTag s ext_Error (UINT64 w) = s\<lparr>Error := (if 0 < uint w then 1 else 0)\<rparr>
   \<and> setTag s ext_Error INVALID = s\<lparr>Error := 0\<rparr>
   \<and> setTag s ext_Error (FLOAT32 f) = s\<lparr>Error := 1\<rparr>
   \<and> setTag s ext_Error (FLOAT64 d) = s\<lparr>Error := 1\<rparr>
   \<and> setTag s ext_Error (ARRAY a) = s\<lparr>Error := 1\<rparr>"
  by (simp add: setTag_def)

subsection \<open>C6: the status table and its fallback\<close>

text \<open>
  C6. The lookup of a status code is a total function. The table holds the seventeen
  codes \<open>OK\<close> to \<open>Unauthenticated\<close>, and for each the lookup returns the entry's
  message and HTTP status. For every code not in the table it returns the message
  \<open>ERR_CODE_\<close> followed by the decimal digits of the code, with HTTP status 500, which
  is in the 5xx class.
\<close>

theorem status_translator:
  "dom statusCodes =
     {codes_OK, codes_Canceled, codes_Unknown, codes_InvalidArgument, codes_DeadlineExceeded,
      codes_NotFound, codes_AlreadyExists, codes_PermissionDenied, codes_ResourceExhausted,
      codes_FailedPrecondition, codes_Aborted, codes_OutOfRange, codes_Unimplemented,
      codes_Internal, codes_Unavailable, codes_DataLoss, codes_Unauthenticated}
   \<and> convertSpan_code codes_OK = \<lparr>message = ''OK'', status = 200\<rparr>
   \<and> convertSpan_code codes_Canceled = \<lparr>message = ''CANCELLED'', status = 499\<rparr>
   \<and> convertSpan_code codes_Unknown = \<lparr>message = ''UNKNOWN'', status = 500\<rparr>
   \<and> convertSpan_code codes_InvalidArgument = \<lparr>message = ''INVALID_ARGUMENT'', status = 400\<rparr>
   \<and> convertSpan_code codes_DeadlineExceeded = \<lparr>message = ''DEADLINE_EXCEEDED'', status = 504\<rparr>
   \<and> convertSpan_code codes_NotFound = \<lparr>message = ''NOT_FOUND'', status = 404\<rparr>
   \<and> convertSpan_code codes_AlreadyExists = \<lparr>message = ''ALREADY_EXISTS'', status = 409\<rparr>
   \<and> convertSpan_code codes_PermissionDenied = \<lparr>message = ''PERMISSION_DENIED'', status = 403\<rparr>
   \<and> convertSpan_code codes_ResourceExhausted = \<lparr>message = ''RESOURCE_EXHAUSTED'', status = 429\<rparr>
   \<and> convertSpan_code codes_FailedPrecondition = \<lparr>message = ''FAILED_PRECONDITION'', status = 400\<rparr>
   \<and> convertSpan_code codes_Aborted = \<lparr>message = ''ABORTED'', status = 409\<rparr>
   \<and> convertSpan_code codes_OutOfRange = \<lparr>message = ''OUT_OF_RANGE'', status = 400\<rparr>
   \<and> convertSpan_code codes_Unimplemented = \<lparr>message = ''UNIMPLEMENTED'', status = 501\<rparr>
   \<and> convertSpan_code codes_Internal = \<lparr>message = ''INTERNAL'', status = 500\<rparr>
   \<and> convertSpan_code codes_Unavailable = \<lparr>message = ''UNAVAILABLE'', status = 503\<rparr>
   \<and> convertSpan_code codes_DataLoss = \<lparr>message = ''DATA_LOSS'', status = 501\<rparr>
   \<and> convertSpan_code codes_Unauthenticated = \<lparr>message = ''UNAUTHENTICATED'', status = 401\<rparr>
   \<and> (c \<notin> dom statusCodes \<longrightarrow>
        convertSpan_code c = \<lparr>message = ''ERR_CODE_'' @ decimal (unat c), status = 500\<rparr>
        \<and> status (convertSpan_code c) div 100 = 5)"
proof -
  have table: "convertSpan_code codes_OK = \<lparr>message = ''OK'', status = 200\<rparr>"
    "convertSpan_code codes_Canceled = \<lparr>message = ''CANCELLED'', status = 499\<rparr>"
    "convertSpan_code codes_Unknown = \<lparr>message = ''UNKNOWN'', status = 500\<rparr>"
    "convertSpan_code codes_InvalidArgument = \<lparr>message = ''INVALID_ARGUMENT'', status = 400\<rparr>"
    "convertSpan_code codes_DeadlineExceeded = \<lparr>message = ''DEADLINE_EXCEEDED'', status = 504\<rparr>"
    "convertSpan_code codes_NotFound = \<lparr>message = ''NOT_FOUND'', status = 404\<rparr>"
    "convertSpan_code codes_AlreadyExists = \<lparr>message = ''ALREADY_EXISTS'', status = 409\<rparr>"
    "convertSpan_code codes_PermissionDenied = \<lparr>message = ''PERMISSION_DENIED'', status = 403\<rparr>"
    "convertSpan_code codes_ResourceExhausted = \<lparr>message = ''RESOURCE_EXHAUSTED'', status = 429\<rparr>"
    "convertSpan_code codes_FailedPrecondition = \<lparr>message = ''FAILED_PRECONDITION'', status = 400\<rparr>"
    "convertSpan_code codes_Aborted = \<lparr>message = ''ABORTED'', status = 409\<rparr>"
    "convertSpan_code codes_OutOfRange = \<lparr>message = ''OUT_OF_RANGE'', status = 400\<rparr>"
    "convertSpan_code codes_Unimplemented = \<lparr>message = ''UNIMPLEMENTED'', status = 501\<rparr>"
    "convertSpan_code codes_Internal = \<lparr>message = ''INTERNAL'', status = 500\<rparr>"
    "convertSpan_code codes_Unavailable = \<lparr>message = ''UNAVAILABLE'', status = 503\<rparr>"
    "convertSpan_code codes_DataLoss = \<lparr>message = ''DATA_LOSS'', status = 501\<rparr>"
    "convertSpan_code codes_Unauthenticated = \<lparr>message = ''UNAUTHENTICATED'', status = 401\<rparr>"
    by (simp_all add: convertSpan_code_def statusCodes_def code_defs http_defs)
  have fallback: "c \<notin> dom statusCodes \<longrightarrow>
        convertSpan_code c = \<lparr>message = ''ERR_CODE_'' @ decimal (unat c), status = 500\<rparr>
        \<and> status (convertSpan_code c) div 100 = 5"
    by (auto simp: convertSpan_code_def FormatInt_code http_defs)
  show ?thesis
    using dom_statusCodes table fallback by (intro conjI) 
qed

text \<open>C6, witness: the code 17 is not in the table and gives \<open>ERR_CODE_17\<close> with 500.\<close>

theorem status_translator_witness:
  "(17 :: 32 word) \<notin> dom statusCodes
   \<and> convertSpan_code 17 = \<lparr>message = ''ERR_CODE_17'', status = 500\<rparr>"
proof -
  have "(17 :: 32 word) \<notin> dom statusCodes"
    by (simp add: dom_statusCodes code_defs)
  moreover have "decimal (unat (17 :: 32 word)) = ''17''"
    by (simp add: decimal.simps)
  ultimately show ?thesis
    using status_translator[of 17] by simp
qed

subsection \<open>C7: global tags first, the last write wins\<close>

text \<open>
  C7. The returned record is the record before the loops with the global tags dispatched
  in their order and then the span's attributes in theirs, all by \<open>setTag\<close>. Hence a slot
  written by a span attribute and by no later span attribute holds what that attribute
  stores, whatever the global tags are; and a global tag whose slots are all written by
  a span attribute of the same key has no influence on the returned record: the local
  value replaces it, and no error is raised.
\<close>

theorem globals_then_locals:
  "convertSpan e s = setTags (setTags (statusStep e s) (opts_GlobalTags e)) (sd_Attributes s)
   \<and> (sd_Attributes s = pre @ l # post \<and> sl \<in> set (slots (Key l) (Value l))
        \<and> sl \<notin> written post \<longrightarrow>
       content sl (convertSpan e s) = content sl (setTag r0 (Key l) (Value l)))
   \<and> (opts_GlobalTags e = g1 @ g # g2 \<and> l \<in> set (sd_Attributes s) \<and> Key l = Key g
        \<and> set (slots (Key g) (Value g)) \<subseteq> set (slots (Key l) (Value l)) \<longrightarrow>
       convertSpan e s = convertSpan (e\<lparr>opts_GlobalTags := g1 @ g2\<rparr>) s)"
proof (intro conjI impI)
  show "convertSpan e s = setTags (setTags (statusStep e s) (opts_GlobalTags e)) (sd_Attributes s)"
    by (simp add: convertSpan_statusStep setTags_append)
next
  assume "sd_Attributes s = pre @ l # post \<and> sl \<in> set (slots (Key l) (Value l))
        \<and> sl \<notin> written post"
  then have eq: "opts_GlobalTags e @ sd_Attributes s = (opts_GlobalTags e @ pre) @ l # post"
    and sl: "sl \<in> set (slots (Key l) (Value l))" "sl \<notin> written post"
    by simp_all
  show "content sl (convertSpan e s) = content sl (setTag r0 (Key l) (Value l))"
    unfolding convertSpan_statusStep eq using sl by (rule content_setTags_last)
next
  assume "opts_GlobalTags e = g1 @ g # g2 \<and> l \<in> set (sd_Attributes s) \<and> Key l = Key g
        \<and> set (slots (Key g) (Value g)) \<subseteq> set (slots (Key l) (Value l))"
  then have g: "opts_GlobalTags e = g1 @ g # g2" and l: "l \<in> set (sd_Attributes s)"
    and sub: "set (slots (Key g) (Value g)) \<subseteq> set (slots (Key l) (Value l))"
    by blast+
  from l have "set (slots (Key l) (Value l)) \<subseteq> written (g2 @ sd_Attributes s)"
    using slots_subset_written[of l "sd_Attributes s"] by auto
  with sub have "set (slots (Key g) (Value g)) \<subseteq> written (g2 @ sd_Attributes s)"
    by (rule subset_trans)
  then have "setTags (setTag (setTags (statusStep e s) g1) (Key g) (Value g)) (g2 @ sd_Attributes s)
      = setTags (setTags (statusStep e s) g1) (g2 @ sd_Attributes s)"
    by (rule setTags_shadow)
  then show "convertSpan e s = convertSpan (e\<lparr>opts_GlobalTags := g1 @ g2\<rparr>) s"
    by (simp add: convertSpan_statusStep g setTags_append)
qed

text \<open>
  C7, witness: the global tag \<open>key1 = "value1"\<close> and the span attribute
  \<open>key1 = "local"\<close>.
\<close>

theorem globals_then_locals_witness:
  "opts_GlobalTags (example_opts\<lparr>opts_GlobalTags := [\<lparr>Key = ''key1'', Value = STRING ''value1''\<rparr>]\<rparr>)
     = [] @ \<lparr>Key = ''key1'', Value = STRING ''value1''\<rparr> # []
   \<and> sd_Attributes (example_span\<lparr>sd_Attributes := [\<lparr>Key = ''key1'', Value = STRING ''local''\<rparr>]\<rparr>)
     = [] @ \<lparr>Key = ''key1'', Value = STRING ''local''\<rparr> # []
   \<and> set (slots ''key1'' (STRING ''value1'')) \<subseteq> set (slots ''key1'' (STRING ''local''))
   \<and> Tag ''key1'' \<in> set (slots ''key1'' (STRING ''local''))
   \<and> Tag ''key1'' \<notin> written []
   \<and> Meta (convertSpan (example_opts\<lparr>opts_GlobalTags := [\<lparr>Key = ''key1'', Value = STRING ''value1''\<rparr>]\<rparr>)
        (example_span\<lparr>sd_Attributes := [\<lparr>Key = ''key1'', Value = STRING ''local''\<rparr>]\<rparr>)) ''key1''
       = Some ''local''
   \<and> convertSpan (example_opts\<lparr>opts_GlobalTags := [\<lparr>Key = ''key1'', Value = STRING ''value1''\<rparr>]\<rparr>)
        (example_span\<lparr>sd_Attributes := [\<lparr>Key = ''key1'', Value = STRING ''local''\<rparr>]\<rparr>)
       = convertSpan (example_opts\<lparr>opts_GlobalTags := []\<rparr>)
        (example_span\<lparr>sd_Attributes := [\<lparr>Key = ''key1'', Value = STRING ''local''\<rparr>]\<rparr>)"
proof -
  let ?g = "\<lparr>Key = ''key1'', Value = STRING ''value1''\<rparr>"
  let ?l = "\<lparr>Key = ''key1'', Value = STRING ''local''\<rparr>"
  let ?e = "example_opts\<lparr>opts_GlobalTags := [?g]\<rparr>"
  let ?s = "example_span\<lparr>sd_Attributes := [?l]\<rparr>"
  have g: "opts_GlobalTags ?e = [] @ ?g # []" and l: "sd_Attributes ?s = [] @ ?l # []"
    by simp_all
  have sl: "slots ''key1'' (STRING ''value1'') = [Tag ''key1'']"
    "slots ''key1'' (STRING ''local'') = [Tag ''key1'']"
    by (simp_all add: slot_defs key_defs)
  have wr: "content (Tag ''key1'') (setTag (statusStep ?e ?s) (Key ?l) (Value ?l)) = Text ''local''"
    by (simp add: setTag_def setStringTag_def key_defs)
  have last: "sd_Attributes ?s = [] @ ?l # [] \<and> Tag ''key1'' \<in> set (slots (Key ?l) (Value ?l))
      \<and> Tag ''key1'' \<notin> written []"
    by (simp add: sl)
  have shadow: "opts_GlobalTags ?e = [] @ ?g # [] \<and> ?l \<in> set (sd_Attributes ?s) \<and> Key ?l = Key ?g
      \<and> set (slots (Key ?g) (Value ?g)) \<subseteq> set (slots (Key ?l) (Value ?l))"
    by (simp add: sl)
  note T = globals_then_locals[of ?e ?s "[]" ?l "[]" "Tag ''key1''" "statusStep ?e ?s" "[]" ?g "[]",
        THEN conjunct2]
  have "content (Tag ''key1'') (convertSpan ?e ?s) = Text ''local''"
    using T[THEN conjunct1, THEN mp, OF last] by (simp only: wr)
  then have stored: "Meta (convertSpan ?e ?s) ''key1'' = Some ''local''"
    by (simp split: option.splits)
  have same: "convertSpan ?e ?s = convertSpan (?e\<lparr>opts_GlobalTags := [] @ []\<rparr>) ?s"
    using T[THEN conjunct2, THEN mp, OF shadow] .
  show ?thesis
    using stored same by (simp add: sl)
qed

subsection \<open>C8: the analytics event key\<close>

text \<open>
  C8. An attribute with the key \<open>analytics.event\<close> and a string or bool value writes only
  the metric \<open>_dd1.sr.eausr\<close>: 0 when the string is \<open>false\<close>, 1 for any other string;
  1 for the bool true and 0 for the bool false. No tag is stored.
\<close>

theorem analytics_event_metric:
  "setTag s ext_AnalyticsEvent (STRING x)
     = s\<lparr>Metrics := (Metrics s)(ext_EventSampleRate \<mapsto>
           (if x = ''false'' then Float64_of_int 0 else Float64_of_int 1))\<rparr>
   \<and> setTag s ext_AnalyticsEvent (BOOL True)
     = s\<lparr>Metrics := (Metrics s)(ext_EventSampleRate \<mapsto> Float64_of_int 1)\<rparr>
   \<and> setTag s ext_AnalyticsEvent (BOOL False)
     = s\<lparr>Metrics := (Metrics s)(ext_EventSampleRate \<mapsto> Float64_of_int 0)\<rparr>"
  by (simp add: setTag_def setStringTag_def setMetric_def key_defs)

subsection \<open>C9: an error attribute overrides the status\<close>

text \<open>
  C9. When the global tags followed by the span's attributes contain an attribute with
  the error key, the last such attribute alone decides the error flag of the returned
  record, by its value as in C5 and whatever the status and the kind are. Every tag
  written before the loops is still present in the returned record, and the tags
  \<open>error.type\<close> and \<open>error.msg\<close> keep their values unless a global tag or attribute
  is stored as a tag under their keys.
\<close>

theorem error_attribute_overrides:
  assumes "opts_GlobalTags e @ sd_Attributes s = pre @ a # post"
    and "Key a = ext_Error"
    and "ext_Error \<notin> set (map Key post)"
  shows "Error (convertSpan e s)
           = (case Value a of
                STRING x \<Rightarrow> 1
              | BOOL b \<Rightarrow> if b then 1 else 0
              | INT32 n \<Rightarrow> if 0 < sint n then 1 else 0
              | INT64 n \<Rightarrow> if 0 < sint n then 1 else 0
              | UINT32 n \<Rightarrow> if 0 < uint n then 1 else 0
              | UINT64 n \<Rightarrow> if 0 < uint n then 1 else 0
              | INVALID \<Rightarrow> 0
              | _ \<Rightarrow> 1)
       \<and> dom (Meta (statusStep e s)) \<subseteq> dom (Meta (convertSpan e s))
       \<and> (Tag ext_ErrorType \<notin> written (opts_GlobalTags e @ sd_Attributes s) \<longrightarrow>
            Meta (convertSpan e s) ext_ErrorType = Meta (statusStep e s) ext_ErrorType)
       \<and> (Tag ext_ErrorMsg \<notin> written (opts_GlobalTags e @ sd_Attributes s) \<longrightarrow>
            Meta (convertSpan e s) ext_ErrorMsg = Meta (statusStep e s) ext_ErrorMsg)"
proof -
  have "ErrorFlag \<in> set (slots (Key a) (Value a))" "ErrorFlag \<notin> written post"
    using assms(2,3) by (simp_all add: ErrorFlag_slots ErrorFlag_written)
  then have "content ErrorFlag (setTags (statusStep e s) (pre @ a # post))
      = content ErrorFlag (setTag (statusStep e s) (Key a) (Value a))"
    by (rule content_setTags_last)
  then have "Error (convertSpan e s) = Error (setError (statusStep e s) (Value a))"
    using assms(1,2) by (simp add: convertSpan_statusStep setTag_def)
  also have "\<dots> = (case Value a of
                STRING x \<Rightarrow> 1
              | BOOL b \<Rightarrow> if b then 1 else 0
              | INT32 n \<Rightarrow> if 0 < sint n then 1 else 0
              | INT64 n \<Rightarrow> if 0 < sint n then 1 else 0
              | UINT32 n \<Rightarrow> if 0 < uint n then 1 else 0
              | UINT64 n \<Rightarrow> if 0 < uint n then 1 else 0
              | INVALID \<Rightarrow> 0
              | _ \<Rightarrow> 1)"
    by (cases "Value a") simp_all
  finally have flag: "Error (convertSpan e s) = (case Value a of
                STRING x \<Rightarrow> 1
              | BOOL b \<Rightarrow> if b then 1 else 0
              | INT32 n \<Rightarrow> if 0 < sint n then 1 else 0
              | INT64 n \<Rightarrow> if 0 < sint n then 1 else 0
              | UINT32 n \<Rightarrow> if 0 < uint n then 1 else 0
              | UINT64 n \<Rightarrow> if 0 < uint n then 1 else 0
              | INVALID \<Rightarrow> 0
              | _ \<Rightarrow> 1)" .
  have remain: "dom (Meta (statusStep e s)) \<subseteq> dom (Meta (convertSpan e s))"
    by (simp add: dom_Meta_convertSpan)
  show ?thesis
    using flag remain by (simp add: Meta_convertSpan_unwritten)
qed

text \<open>
  C9, witness: a server span with status \<open>Internal\<close> (500), the message
  \<open>status-msg\<close> and the attribute error \<open>false\<close>: the error flag set before the loops
  is returned as 0, with both error tags still in \<open>Meta\<close>.
\<close>

theorem error_attribute_overrides_witness:
  "opts_GlobalTags example_opts
     @ sd_Attributes (example_span\<lparr>sd_StatusCode := codes_Internal,
         sd_Attributes := [\<lparr>Key = ext_Error, Value = BOOL False\<rparr>]\<rparr>)
     = [] @ \<lparr>Key = ext_Error, Value = BOOL False\<rparr> # []
   \<and> ext_Error \<notin> set (map Key [])
   \<and> Tag ext_ErrorType \<notin> written [\<lparr>Key = ext_Error, Value = BOOL False\<rparr>]
   \<and> Tag ext_ErrorMsg \<notin> written [\<lparr>Key = ext_Error, Value = BOOL False\<rparr>]
   \<and> Error (statusStep example_opts (example_span\<lparr>sd_StatusCode := codes_Internal,
         sd_Attributes := [\<lparr>Key = ext_Error, Value = BOOL False\<rparr>]\<rparr>)) = 1
   \<and> Error (convertSpan example_opts (example_span\<lparr>sd_StatusCode := codes_Internal,
         sd_Attributes := [\<lparr>Key = ext_Error, Value = BOOL False\<rparr>]\<rparr>)) = 0
   \<and> Meta (convertSpan example_opts (example_span\<lparr>sd_StatusCode := codes_Internal,
         sd_Attributes := [\<lparr>Key = ext_Error, Value = BOOL False\<rparr>]\<rparr>)) ext_ErrorType
       = Some ''INTERNAL''
   \<and> Meta (convertSpan example_opts (example_span\<lparr>sd_StatusCode := codes_Internal,
         sd_Attributes := [\<lparr>Key = ext_Error, Value = BOOL False\<rparr>]\<rparr>)) ext_ErrorMsg
       = Some ''status-msg''"
proof -
  let ?a = "\<lparr>Key = ext_Error, Value = BOOL False\<rparr>"
  let ?s = "example_span\<lparr>sd_StatusCode := codes_Internal, sd_Attributes := [?a]\<rparr>"
  have attrs: "opts_GlobalTags example_opts @ sd_Attributes ?s = [] @ ?a # []"
    by (simp add: example_opts_def)
  have W: "written ([] @ ?a # []) = {ErrorFlag}"
    by (simp add: slots_def)
  have kind: "sd_SpanKind ?s = SpanKindServer" and msg: "sd_StatusMessage ?s = ''status-msg''"
    by (simp_all add: example_span_def)
  have code: "convertSpan_code (sd_StatusCode ?s) = \<lparr>message = ''INTERNAL'', status = 500\<rparr>"
    by (simp add: code_Internal)
  have E: "Error (statusStep example_opts ?s) = 1"
    by (simp add: Error_statusStep code_Internal kind)
  have M: "Meta (statusStep example_opts ?s) ext_ErrorType = Some ''INTERNAL''"
    "Meta (statusStep example_opts ?s) ext_ErrorMsg = Some ''status-msg''"
    unfolding Meta_statusStep E code msg by (simp_all add: key_defs)
  show ?thesis
    using error_attribute_overrides[OF attrs] M E
    by (simp add: example_opts_def slots_def key_defs)
qed

subsection \<open>C10: numeric values under reserved keys\<close>

text \<open>
  C10. The overrides of the structural fields and the conversion of the analytics event
  apply only to string, bool and array values. An attribute whose key is
  \<open>service.name\<close>, \<open>resource.name\<close>, \<open>span.type\<close>, \<open>span.name\<close> or
  \<open>analytics.event\<close> and whose value is an integer or a float is stored as a metric
  under that very key, and nothing else of the record changes; with an invalid value it
  leaves the record as it was. In \<open>setMetric\<close> only the key \<open>sampling.priority\<close> is
  renamed, to \<open>_sampling_priority_v1\<close>.
\<close>

theorem numeric_reserved_keys:
  assumes "k \<in> {ext_ServiceName, ext_ResourceName, ext_SpanType, keySpanName, ext_AnalyticsEvent}"
  shows "setTag r k (INT32 i) = r\<lparr>Metrics := (Metrics r)(k \<mapsto> Float64_of_int (sint i))\<rparr>
       \<and> setTag r k (INT64 j) = r\<lparr>Metrics := (Metrics r)(k \<mapsto> Float64_of_int (sint j))\<rparr>
       \<and> setTag r k (UINT32 u) = r\<lparr>Metrics := (Metrics r)(k \<mapsto> Float64_of_int (uint u))\<rparr>
       \<and> setTag r k (UINT64 w) = r\<lparr>Metrics := (Metrics r)(k \<mapsto> Float64_of_int (uint w))\<rparr>
       \<and> setTag r k (FLOAT32 f) = r\<lparr>Metrics := (Metrics r)(k \<mapsto> Float64_of_float32 f)\<rparr>
       \<and> setTag r k (FLOAT64 d) = r\<lparr>Metrics := (Metrics r)(k \<mapsto> Float64 d)\<rparr>
       \<and> setTag r k INVALID = r
       \<and> setMetric r k' x
           = r\<lparr>Metrics := (Metrics r)
                ((if k' = ext_SamplingPriority then keySamplingPriority else k') \<mapsto> x)\<rparr>"
proof -
  from assms have "k \<noteq> ext_Error" "k \<noteq> ext_SamplingPriority"
    by (auto simp: key_defs)
  then show ?thesis
    by (simp add: setTag_def setMetric_def)
qed

text \<open>
  C10, witness: the integer 5 under \<open>span.type\<close> becomes the metric \<open>span.type\<close> and
  the span type stays \<open>server\<close>; an invalid value under \<open>span.type\<close> changes nothing;
  a metric under \<open>sampling.priority\<close> is stored under \<open>_sampling_priority_v1\<close>.
\<close>

theorem numeric_reserved_keys_witness:
  "ext_SpanType \<in> {ext_ServiceName, ext_ResourceName, ext_SpanType, keySpanName, ext_AnalyticsEvent}
   \<and> Type (setTag (statusStep example_opts example_span) ext_SpanType (INT64 5)) = ''server''
   \<and> Metrics (setTag (statusStep example_opts example_span) ext_SpanType (INT64 5)) ext_SpanType
       = Some (Float64_of_int 5)
   \<and> setTag (statusStep example_opts example_span) ext_SpanType INVALID
       = statusStep example_opts example_span
   \<and> Metrics (setMetric (statusStep example_opts example_span) ext_SamplingPriority (Float64_of_int 1))
        keySamplingPriority = Some (Float64_of_int 1)"
proof -
  have k: "ext_SpanType \<in> {ext_ServiceName, ext_ResourceName, ext_SpanType, keySpanName, ext_AnalyticsEvent}"
    by simp
  have T: "Type (statusStep example_opts example_span) = ''server''"
    by (simp add: Type_statusStep example_span_def)
  show ?thesis
    using numeric_reserved_keys[OF k, of "statusStep example_opts example_span" _ 5 _ _ _ _
      ext_SamplingPriority "Float64_of_int 1"] T
    by simp
qed

end
